theory Spec2Isabelle
  imports Main "HOL-Library.Product_Lexorder" "HOL-Library.Sublist" "HOL-Library.AList"
begin

section \<open>garmin_export.py: strings and the filename codec\<close>

text \<open>
  A Python \<open>str\<close> is modelled as a \<open>string\<close>: one \<open>char\<close> of the model is one character
  of the Python string (the code points below 256), so \<open>length\<close> and slicing count
  characters as Python does. \<open>bytes\<close> are lists of 8-bit characters as well.
\<close>

type_synonym bytes = string

text \<open>\<open>name.replace(old, new)\<close> for one-character \<open>old\<close> and \<open>new\<close>.\<close>

definition replace :: "char \<Rightarrow> char \<Rightarrow> string \<Rightarrow> string" where
  "replace old new s = map (\<lambda>c. if c = old then new else c) s"

text \<open>The literal \<open>'<>:"/\\|?*'\<close> of \<open>sanitize_filename\<close>; \<open>0x22\<close> is the double quote and
  \<open>0x5C\<close> the backslash.\<close>

definition invalid_chars :: string where
  "invalid_chars = [CHR ''<'', CHR ''>'', CHR '':'', CHR 0x22, CHR ''/'', CHR 0x5C,
                    CHR ''|'', CHR ''?'', CHR ''*'']"

text \<open>
  \<^verbatim>\<open>
  def sanitize_filename(name):
      invalid_chars = '<>:"/\\|?*'
      for char in invalid_chars:
          name = name.replace(char, '-')
      name = name.replace(' ', '_')
      return name[:50] if name else 'Unnamed'
  \<close>
\<close>

definition sanitize_filename :: "string \<Rightarrow> string" where
  "sanitize_filename name =
     (let name1 = foldl (\<lambda>s ch. replace ch CHR ''-'' s) name invalid_chars;
          name2 = replace CHR '' '' CHR ''_'' name1
      in if name2 \<noteq> [] then take 50 name2 else ''Unnamed'')"


subsection \<open>\<open>datetime.strptime\<close> for the two formats the script uses\<close>

text \<open>
  A \<open>datetime\<close> is the tuple (year, month, day, hour, minute, second); the microsecond
  field is 0 for every value the script builds. Python compares naive datetimes field by
  field in this order, which is the lexicographic order on the tuple.
\<close>

type_synonym datetime = "nat \<times> nat \<times> nat \<times> nat \<times> nat \<times> nat"

text \<open>
  CPython's \<open>_strptime\<close> turns a format into a regular expression, matches it at the start
  of the string with the backtracking matcher of \<open>re\<close>, and raises \<open>ValueError\<close> when there
  is no match or when the match does not reach the end of the string. The directives are
  \<^verbatim>\<open>
    %Y  (?P<Y>\d\d\d\d)
    %m  (?P<m>1[0-2]|0[1-9]|[1-9])
    %d  (?P<d>3[0-1]|[1-2]\d|0[1-9]|[1-9]| [1-9])
    %H  (?P<H>2[0-3]|[0-1]\d|\d)
    %M  (?P<M>[0-5]\d|\d)
    %S  (?P<S>6[0-1]|[0-5]\d|\d)
  \<close>
  and a blank in the format becomes \<open>\s+\<close>. Each piece below returns its matches as a
  list, in the order in which the matcher tries them; the sequence of pieces is the list
  monad, so the head of the result is the match that \<open>re\<close> finds. For the characters of the
  model, \<open>\d\<close> is \<open>0\<close> to \<open>9\<close> and \<open>\s\<close> is one of the code points 9 to 13, 28 to 32, 133, 160.
\<close>

definition between :: "char \<Rightarrow> char \<Rightarrow> char \<Rightarrow> bool" where
  "between lo hi c = ((of_char lo :: nat) \<le> of_char c \<and> (of_char c :: nat) \<le> of_char hi)"

definition is_digit :: "char \<Rightarrow> bool" where
  "is_digit c = between CHR ''0'' CHR ''9'' c"

definition is_space :: "char \<Rightarrow> bool" where
  "is_space c = ((of_char c :: nat) \<in> {9, 10, 11, 12, 13, 28, 29, 30, 31, 32, 133, 160})"

definition digit_val :: "char \<Rightarrow> nat" where
  "digit_val c = of_char c - 48"

definition one :: "(char \<Rightarrow> bool) \<Rightarrow> string \<Rightarrow> (nat \<times> string) list" where
  "one p s = (case s of a # r \<Rightarrow> if p a then [(digit_val a, r)] else [] | _ \<Rightarrow> [])"

definition two :: "(char \<Rightarrow> bool) \<Rightarrow> (char \<Rightarrow> bool) \<Rightarrow> string \<Rightarrow> (nat \<times> string) list" where
  "two p q s = (case s of a # b # r \<Rightarrow>
                  if p a \<and> q b then [(10 * digit_val a + digit_val b, r)] else []
                | _ \<Rightarrow> [])"

definition lit :: "char \<Rightarrow> string \<Rightarrow> string list" where
  "lit c s = (case s of a # r \<Rightarrow> if a = c then [r] else [] | _ \<Rightarrow> [])"

text \<open>\<open>\s+\<close> is greedy: the longest run of blanks is tried first.\<close>

fun re_space :: "string \<Rightarrow> string list" where
  "re_space [] = []"
| "re_space (c # r) = (if is_space c then re_space r @ [r] else [])"

definition re_Y :: "string \<Rightarrow> (nat \<times> string) list" where
  "re_Y s = (case s of a # b # c # d # r \<Rightarrow>
               if is_digit a \<and> is_digit b \<and> is_digit c \<and> is_digit d
               then [(1000 * digit_val a + 100 * digit_val b + 10 * digit_val c + digit_val d, r)]
               else []
             | _ \<Rightarrow> [])"

definition re_m :: "string \<Rightarrow> (nat \<times> string) list" where
  "re_m s = two ((=) CHR ''1'') (between CHR ''0'' CHR ''2'') s
          @ two ((=) CHR ''0'') (between CHR ''1'' CHR ''9'') s
          @ one (between CHR ''1'' CHR ''9'') s"

definition re_d :: "string \<Rightarrow> (nat \<times> string) list" where
  "re_d s = two ((=) CHR ''3'') (between CHR ''0'' CHR ''1'') s
          @ two (between CHR ''1'' CHR ''2'') is_digit s
          @ two ((=) CHR ''0'') (between CHR ''1'' CHR ''9'') s
          @ one (between CHR ''1'' CHR ''9'') s
          @ [(d, r). r0 \<leftarrow> lit CHR '' '' s, (d, r) \<leftarrow> one (between CHR ''1'' CHR ''9'') r0]"

definition re_H :: "string \<Rightarrow> (nat \<times> string) list" where
  "re_H s = two ((=) CHR ''2'') (between CHR ''0'' CHR ''3'') s
          @ two (between CHR ''0'' CHR ''1'') is_digit s
          @ one is_digit s"

definition re_M :: "string \<Rightarrow> (nat \<times> string) list" where
  "re_M s = two (between CHR ''0'' CHR ''5'') is_digit s @ one is_digit s"

definition re_S :: "string \<Rightarrow> (nat \<times> string) list" where
  "re_S s = two ((=) CHR ''6'') (between CHR ''0'' CHR ''1'') s
          @ two (between CHR ''0'' CHR ''5'') is_digit s
          @ one is_digit s"

text \<open>The regular expression of \<open>'%Y-%m-%d'\<close>.\<close>

definition match_date :: "string \<Rightarrow> ((nat \<times> nat \<times> nat) \<times> string) list" where
  "match_date s =
     [((y, m, d), r5).
        (y, r1) \<leftarrow> re_Y s, r2 \<leftarrow> lit CHR ''-'' r1,
        (m, r3) \<leftarrow> re_m r2, r4 \<leftarrow> lit CHR ''-'' r3,
        (d, r5) \<leftarrow> re_d r4]"

text \<open>The regular expression of \<open>'%Y-%m-%d %H:%M:%S'\<close>.\<close>

definition match_datetime :: "string \<Rightarrow> (datetime \<times> string) list" where
  "match_datetime s =
     [((y, m, d, H, M, S), r).
        ((y, m, d), r5) \<leftarrow> match_date s, r6 \<leftarrow> re_space r5,
        (H, r7) \<leftarrow> re_H r6, r8 \<leftarrow> lit CHR '':'' r7,
        (M, r9) \<leftarrow> re_M r8, r10 \<leftarrow> lit CHR '':'' r9,
        (S, r) \<leftarrow> re_S r10]"

definition is_leap :: "nat \<Rightarrow> bool" where
  "is_leap y = (y mod 4 = 0 \<and> (y mod 100 \<noteq> 0 \<or> y mod 400 = 0))"

definition days_in_month :: "nat \<Rightarrow> nat \<Rightarrow> nat" where
  "days_in_month y m =
     (if m = 2 then (if is_leap y then 29 else 28)
      else if m \<in> {4, 6, 9, 11} then 30 else 31)"

text \<open>The constructor \<open>datetime(y, m, d, H, M, S)\<close>: \<open>None\<close> is its \<open>ValueError\<close>.\<close>

definition mk_datetime :: "datetime \<Rightarrow> datetime option" where
  "mk_datetime t = (case t of (y, m, d, H, M, S) \<Rightarrow>
     if 1 \<le> y \<and> y \<le> 9999 \<and> 1 \<le> m \<and> m \<le> 12 \<and> 1 \<le> d \<and> d \<le> days_in_month y m
        \<and> H \<le> 23 \<and> M \<le> 59 \<and> S \<le> 59
     then Some t else None)"

text \<open>\<open>datetime.strptime(s, '%Y-%m-%d')\<close>; \<open>None\<close> is its \<open>ValueError\<close>.\<close>

definition strptime_date :: "string \<Rightarrow> datetime option" where
  "strptime_date s =
     (case match_date s of
        [] \<Rightarrow> None
      | ((y, m, d), r) # _ \<Rightarrow> if r \<noteq> [] then None else mk_datetime (y, m, d, 0, 0, 0))"

text \<open>\<open>datetime.strptime(s, '%Y-%m-%d %H:%M:%S')\<close>; \<open>None\<close> is its \<open>ValueError\<close>.\<close>

definition strptime_datetime :: "string \<Rightarrow> datetime option" where
  "strptime_datetime s =
     (case match_datetime s of
        [] \<Rightarrow> None
      | (t, r) # _ \<Rightarrow> if r \<noteq> [] then None else mk_datetime t)"

subsection \<open>\<open>strftime('%Y-%m-%d')\<close>, dictionary values and \<open>get_date_string\<close>\<close>

definition digit :: "nat \<Rightarrow> char" where
  "digit n = ''0123456789'' ! n"

definition pad2 :: "nat \<Rightarrow> string" where
  "pad2 n = [digit (n div 10), digit (n mod 10)]"

text \<open>A number in decimal, without padding.\<close>

fun decimal :: "nat \<Rightarrow> string" where
  "decimal n = (if n < 10 then [digit n] else decimal (n div 10) @ [digit (n mod 10)])"

declare decimal.simps [simp del]

text \<open>
  \<open>date_obj.strftime('%Y-%m-%d')\<close> as CPython on Linux prints it: the C library writes \<open>%Y\<close> as
  the year in decimal without padding, so that a year below 1000 has fewer than four
  digits (\<open>999-12-31\<close>, \<open>5-01-02\<close>), and \<open>%m\<close> and \<open>%d\<close> on two digits.
\<close>

definition strftime_date :: "datetime \<Rightarrow> string" where
  "strftime_date t = (case t of (y, m, d, H, M, S) \<Rightarrow> decimal y @ ''-'' @ pad2 m @ ''-'' @ pad2 d)"

text \<open>
  A value of the activity dictionary, as the JSON of the service gives it: a string, or
  any other value (\<open>null\<close>, a number, a boolean, a list, an object). Of a value that is
  not a string the model keeps the text that an f-string prints for it.
\<close>

datatype pyval = Str string | NotStr string

definition text_of :: "pyval \<Rightarrow> string" where
  "text_of v = (case v of Str s \<Rightarrow> s | NotStr t \<Rightarrow> t)"

text \<open>
  \<^verbatim>\<open>
  def get_date_string(start_time):
      try:
          date_obj = datetime.strptime(start_time, '%Y-%m-%d %H:%M:%S')
          return date_obj.strftime('%Y-%m-%d')
      except:
          return 'unknown_date'
  \<close>
  For a value that is not a string \<open>strptime\<close> raises \<open>TypeError\<close>, which the bare \<open>except\<close>
  catches like the \<open>ValueError\<close> of a string that does not parse.
\<close>

definition get_date_string :: "pyval \<Rightarrow> string" where
  "get_date_string start_time =
     (case start_time of
        NotStr t \<Rightarrow> ''unknown_date''
      | Str s \<Rightarrow>
          (case strptime_datetime s of
             Some date_obj \<Rightarrow> strftime_date date_obj
           | None \<Rightarrow> ''unknown_date''))"

subsection \<open>File names\<close>

text \<open>
  Every downloader builds its file name the same way:
  \<^verbatim>\<open>
      name_part = f'_{activity_name}' if activity_name else ''
      filename = output_dir / f'{date_str}{name_part}_{activity_id}.gpx'
  \<close>
  The activity identifier is taken as its text, the way the f-string prints it.
\<close>

definition export_name :: "string \<Rightarrow> string \<Rightarrow> string \<Rightarrow> string \<Rightarrow> string" where
  "export_name date_str activity_name activity_id ext =
     (let name_part = (if activity_name \<noteq> [] then ''_'' @ activity_name else [])
      in date_str @ name_part @ ''_'' @ activity_id @ ext)"

text \<open>
  The body of the loop of \<open>get_last_activity_date\<close>:
  \<^verbatim>\<open>
      date_str = file.name.split('_')[0]
      date_obj = datetime.strptime(date_str, '%Y-%m-%d')
  \<close>
  \<open>split('_')[0]\<close> is the text before the first underscore, the whole name when it has none.
\<close>

definition decode_date :: "string \<Rightarrow> datetime option" where
  "decode_date name = strptime_date (takeWhile (\<lambda>c. c \<noteq> CHR ''_'') name)"

section \<open>The world the script runs in\<close>

text \<open>
  Exceptions are values. The three handlers of \<open>main\<close> tell the two exceptions of
  \<open>garminconnect\<close> from every other \<open>Exception\<close>; the script raises or meets the others
  named here, and \<open>OtherException\<close> stands for whatever else a collaborator raises.
\<close>

datatype exn =
    GarminConnectAuthenticationError
  | GarminConnectConnectionError
  | KeyError
  | AttributeError
  | TypeError
  | ValueError
  | OSError
  | FileNotFoundError
  | UnicodeDecodeError
  | BadZipFile
  | OtherException string

text \<open>
  An activity is the dictionary the service returns; a field is \<open>None\<close> when the key is
  absent. The value of \<open>activityName\<close> and of \<open>startTimeLocal\<close> may be a string or not. The
  value of \<open>activityType\<close> is a dictionary with an optional \<open>typeKey\<close>, or a value of
  another kind, which has no method \<open>get\<close>. The script only ever prints the identifier, so
  \<open>activityId\<close> holds the text that an f-string prints for its value.
\<close>

datatype type_field = TypeDict "pyval option" | NotDict

record activity =
  activityId :: "string option"
  activityName :: "pyval option"
  activityType :: "type_field option"
  startTimeLocal :: "pyval option"

datatype format_type = Fmt_gpx | Fmt_tcx | Fmt_fit | Fmt_json

definition format_name :: "format_type \<Rightarrow> string" where
  "format_name f = (case f of Fmt_gpx \<Rightarrow> ''gpx'' | Fmt_tcx \<Rightarrow> ''tcx''
                            | Fmt_fit \<Rightarrow> ''fit'' | Fmt_json \<Rightarrow> ''json'')"

text \<open>\<open>client.ActivityDownloadFormat\<close>.\<close>

datatype dl_fmt = GPX | TCX | ORIGINAL

text \<open>The requests the script sends to the client; \<open>Login b\<close> is a login with (\<open>True\<close>) or
  without (\<open>False\<close>) the token store.\<close>

datatype call =
    Login bool
  | GetActivities int int
  | DownloadActivity string dl_fmt
  | GetActivityDetails string
  | GetActivity string

text \<open>
  The collaborators of the script are parameters of the model. The client answers a
  request given the requests made so far, so that its answers may change during a run;
  \<open>Inl\<close> (for \<open>c_login\<close>, \<open>Some\<close>) is the exception it raises. The type \<open>'j\<close> is that of the
  JSON structures. Of the libraries, \<open>zip_read\<close> is what \<open>zipfile.ZipFile\<close> finds in a file's
  bytes: \<open>Inl\<close> the exception it raises on opening (\<open>BadZipFile\<close> for bytes that are no
  archive), else the members in the order of \<open>namelist()\<close>, each a plain file name with
  what \<open>extract\<close> does for it; \<open>utf8_ok\<close> says whether \<open>data.decode('utf-8')\<close> succeeds;
  \<open>json_dumps\<close> is \<open>json.dumps(_, indent=2)\<close>.

  \<open>extract\<close> either writes the bytes of the member to a file of its name, or raises an
  exception (\<open>BadZipFile\<close> for a member with a bad header or a bad checksum, another one
  for an encrypted member or an unknown compression), in some cases after it has
  created that file: \<open>Fails e (Some b)\<close> leaves the file with the bytes \<open>b\<close>.
\<close>

datatype extraction = Extracts bytes | Fails exn "bytes option"

record 'j env =
  c_login :: "call list \<Rightarrow> bool \<Rightarrow> exn option"
  c_get_activities :: "call list \<Rightarrow> int \<Rightarrow> int \<Rightarrow> exn + activity list"
  c_download_activity :: "call list \<Rightarrow> string \<Rightarrow> dl_fmt \<Rightarrow> exn + bytes"
  c_get_activity_details :: "call list \<Rightarrow> string \<Rightarrow> exn + 'j"
  c_get_activity :: "call list \<Rightarrow> string \<Rightarrow> exn + 'j"
  zip_read :: "bytes \<Rightarrow> exn + (string \<times> extraction) list"
  utf8_ok :: "bytes \<Rightarrow> bool"
  json_dumps :: "'j \<Rightarrow> exn + string"

text \<open>What the script prints, one constructor for each \<open>print\<close> (or group of them).\<close>

datatype msg =
    MUsernameRequired
  | MPasswordRequired
  | MOutputDirectory
  | MLastDate datetime
  | MNoExisting
  | MConnecting
  | MAuthenticated
  | MFetching int
  | MNoActivities
  | MFound nat
  | MFiltered nat
  | MNoNew
  | MProgress nat nat
  | MActivity string string string
  | MSaved string
  | MError exn
  | MComplete nat nat
  | MAuthFailed exn
  | MConnectionError exn
  | MUnexpected exn

text \<open>
  The output directory: absent; present but closed to listing (\<open>glob\<close> swallows the
  \<open>PermissionError\<close> and yields nothing); present but failing with another \<open>OSError\<close> when
  listed; or listable.
\<close>

datatype dir_state = Missing | NoPermission | Broken | Listable

text \<open>
  The state of the world: the output directory, whether \<open>mkdir\<close> can create it, its
  regular files by name (a POSIX file system: \<open>rename\<close> replaces its target), the names
  the system lets the script create or write, the token store (whether the directory
  exists, whether \<open>mkdir\<close> can create it, and whether it holds a token file), the requests
  sent to the client so far, and what has been printed.
\<close>

record world =
  out_dir :: dir_state
  out_creatable :: bool
  files :: "(string \<times> bytes) list"
  writable :: "string \<Rightarrow> bool"
  tok_dir :: bool
  tok_creatable :: bool
  tok_files :: bool
  calls :: "call list"
  stdout :: "msg list"

definition print_msg :: "msg \<Rightarrow> world \<Rightarrow> world" where
  "print_msg m w = w\<lparr>stdout := stdout w @ [m]\<rparr>"

definition record_call :: "call \<Rightarrow> world \<Rightarrow> world" where
  "record_call c w = w\<lparr>calls := calls w @ [c]\<rparr>"

text \<open>\<open>path.write_bytes(data)\<close> and \<open>path.write_text(text)\<close> for a path of the output directory.\<close>

definition write_file :: "string \<Rightarrow> bytes \<Rightarrow> world \<Rightarrow> exn + world" where
  "write_file n b w =
     (if out_dir w = Missing then Inl FileNotFoundError
      else if \<not> writable w n then Inl OSError
      else Inr (w\<lparr>files := AList.update n b (files w)\<rparr>))"

text \<open>\<open>src.rename(dst)\<close>.\<close>

definition rename_file :: "string \<Rightarrow> string \<Rightarrow> world \<Rightarrow> exn + world" where
  "rename_file src dst w =
     (case map_of (files w) src of
        None \<Rightarrow> Inl FileNotFoundError
      | Some b \<Rightarrow> Inr (w\<lparr>files := AList.update dst b (AList.delete src (files w))\<rparr>))"

text \<open>\<open>path.unlink()\<close>.\<close>

definition unlink :: "string \<Rightarrow> world \<Rightarrow> exn + world" where
  "unlink n w =
     (case map_of (files w) n of
        None \<Rightarrow> Inl FileNotFoundError
      | Some b \<Rightarrow> Inr (w\<lparr>files := AList.delete n (files w)\<rparr>))"

text \<open>\<open>list(output_dir.glob(f'*{format_ext}'))\<close> for an extension without wildcard characters,
  as the names of the matching files.\<close>

definition glob_ext :: "world \<Rightarrow> string \<Rightarrow> exn + string list" where
  "glob_ext w format_ext =
     (case out_dir w of
        Missing \<Rightarrow> Inr []
      | NoPermission \<Rightarrow> Inr []
      | Broken \<Rightarrow> Inl OSError
      | Listable \<Rightarrow> Inr (filter (suffix format_ext) (map fst (files w))))"

section \<open>The downloaders\<close>

text \<open>
  A downloader returns the path it wrote, or the exception that left it, together with
  the world as it is then.
  \<^verbatim>\<open>
  def download_gpx(client, activity_id, output_dir, date_str, activity_name=''):
      name_part = f'_{activity_name}' if activity_name else ''
      filename = output_dir / f'{date_str}{name_part}_{activity_id}.gpx'
      data = client.download_activity(activity_id, dl_fmt=client.ActivityDownloadFormat.GPX)
      filename.write_bytes(data)
      return filename
  \<close>
\<close>

definition download_gpx ::
  "'j env \<Rightarrow> string \<Rightarrow> string \<Rightarrow> string \<Rightarrow> world \<Rightarrow> (exn + string) \<times> world" where
  "download_gpx env activity_id date_str activity_name w =
     (let filename = export_name date_str activity_name activity_id ''.gpx'';
          w1 = record_call (DownloadActivity activity_id GPX) w
      in case c_download_activity env (calls w) activity_id GPX of
           Inl e \<Rightarrow> (Inl e, w1)
         | Inr data \<Rightarrow>
             (case write_file filename data w1 of
                Inl e \<Rightarrow> (Inl e, w1)
              | Inr w2 \<Rightarrow> (Inr filename, w2)))"

text \<open>
  \<^verbatim>\<open>
  def download_tcx(client, activity_id, output_dir, date_str, activity_name=''):
      name_part = f'_{activity_name}' if activity_name else ''
      filename = output_dir / f'{date_str}{name_part}_{activity_id}.tcx'
      data = client.download_activity(activity_id, dl_fmt=client.ActivityDownloadFormat.TCX)
      filename.write_text(data.decode('utf-8'))
      return filename
  \<close>
  Under a UTF-8 locale the text written has the bytes that were decoded.
\<close>

definition download_tcx ::
  "'j env \<Rightarrow> string \<Rightarrow> string \<Rightarrow> string \<Rightarrow> world \<Rightarrow> (exn + string) \<times> world" where
  "download_tcx env activity_id date_str activity_name w =
     (let filename = export_name date_str activity_name activity_id ''.tcx'';
          w1 = record_call (DownloadActivity activity_id TCX) w
      in case c_download_activity env (calls w) activity_id TCX of
           Inl e \<Rightarrow> (Inl e, w1)
         | Inr data \<Rightarrow>
             if \<not> utf8_ok env data then (Inl UnicodeDecodeError, w1)
             else (case write_file filename data w1 of
                     Inl e \<Rightarrow> (Inl e, w1)
                   | Inr w2 \<Rightarrow> (Inr filename, w2)))"

text \<open>
  \<^verbatim>\<open>
  def download_fit(client, activity_id, output_dir, date_str, activity_name=''):
      name_part = f'_{activity_name}' if activity_name else ''
      zip_filename = output_dir / f'{date_str}{name_part}_{activity_id}.zip'
      data = client.download_activity(activity_id, dl_fmt=client.ActivityDownloadFormat.ORIGINAL)
      zip_filename.write_bytes(data)
      final_filename = output_dir / f'{date_str}{name_part}_{activity_id}.fit'
      try:
          with zipfile.ZipFile(zip_filename, 'r') as zip_ref:
              extracted_files = zip_ref.namelist()
              if extracted_files:
                  zip_ref.extract(extracted_files[0], output_dir)
                  extracted_path = output_dir / extracted_files[0]
                  extracted_path.rename(final_filename)
          zip_filename.unlink()  # Remove ZIP after extraction
      except zipfile.BadZipFile:
          zip_filename.rename(final_filename)
      return final_filename
  \<close>
\<close>

text \<open>The clause \<open>except zipfile.BadZipFile\<close>: it covers the whole \<open>with\<close> block, the
  opening of the archive as well as \<open>extract\<close>.\<close>

definition not_a_zip :: "string \<Rightarrow> string \<Rightarrow> world \<Rightarrow> (exn + string) \<times> world" where
  "not_a_zip zip_filename final_filename w =
     (case rename_file zip_filename final_filename w of
        Inl e \<Rightarrow> (Inl e, w)
      | Inr w' \<Rightarrow> (Inr final_filename, w'))"

definition download_fit ::
  "'j env \<Rightarrow> string \<Rightarrow> string \<Rightarrow> string \<Rightarrow> world \<Rightarrow> (exn + string) \<times> world" where
  "download_fit env activity_id date_str activity_name w =
     (let zip_filename = export_name date_str activity_name activity_id ''.zip'';
          final_filename = export_name date_str activity_name activity_id ''.fit'';
          w1 = record_call (DownloadActivity activity_id ORIGINAL) w
      in case c_download_activity env (calls w) activity_id ORIGINAL of
           Inl e \<Rightarrow> (Inl e, w1)
         | Inr data \<Rightarrow>
             (case write_file zip_filename data w1 of
                Inl e \<Rightarrow> (Inl e, w1)
              | Inr w2 \<Rightarrow>
                  (case zip_read env data of
                     Inl e \<Rightarrow>
                       if e = BadZipFile then not_a_zip zip_filename final_filename w2
                       else (Inl e, w2)
                   | Inr [] \<Rightarrow>
                       (case unlink zip_filename w2 of
                          Inl e \<Rightarrow> (Inl e, w2)
                        | Inr w3 \<Rightarrow> (Inr final_filename, w3))
                   | Inr ((member, Extracts content) # others) \<Rightarrow>
                       (case write_file member content w2 of
                          Inl e \<Rightarrow> (Inl e, w2)
                        | Inr w3 \<Rightarrow>
                            (case rename_file member final_filename w3 of
                               Inl e \<Rightarrow> (Inl e, w3)
                             | Inr w4 \<Rightarrow>
                                 (case unlink zip_filename w4 of
                                    Inl e \<Rightarrow> (Inl e, w4)
                                  | Inr w5 \<Rightarrow> (Inr final_filename, w5))))
                   | Inr ((member, Fails e left) # others) \<Rightarrow>
                       (let w3 = (case left of
                                    None \<Rightarrow> w2
                                  | Some b \<Rightarrow> w2\<lparr>files := AList.update member b (files w2)\<rparr>)
                        in if e = BadZipFile then not_a_zip zip_filename final_filename w3
                           else (Inl e, w3)))))"

text \<open>
  \<^verbatim>\<open>
  def download_json(client, activity_id, output_dir, date_str, activity_name=''):
      name_part = f'_{activity_name}' if activity_name else ''
      filename = output_dir / f'{date_str}{name_part}_{activity_id}.json'
      details = client.get_activity_details(activity_id)
      filename.write_text(json.dumps(details, indent=2))
      json_full = output_dir / f'{date_str}{name_part}_{activity_id}_full.json'
      full_activity = client.get_activity(activity_id)
      json_full.write_text(json.dumps(full_activity, indent=2))
      return filename
  \<close>
\<close>

definition download_json ::
  "'j env \<Rightarrow> string \<Rightarrow> string \<Rightarrow> string \<Rightarrow> world \<Rightarrow> (exn + string) \<times> world" where
  "download_json env activity_id date_str activity_name w =
     (let filename = export_name date_str activity_name activity_id ''.json'';
          json_full = export_name date_str activity_name activity_id ''_full.json'';
          w1 = record_call (GetActivityDetails activity_id) w
      in case c_get_activity_details env (calls w) activity_id of
           Inl e \<Rightarrow> (Inl e, w1)
         | Inr details \<Rightarrow>
             (case json_dumps env details of
                Inl e \<Rightarrow> (Inl e, w1)
              | Inr text1 \<Rightarrow>
                  (case write_file filename text1 w1 of
                     Inl e \<Rightarrow> (Inl e, w1)
                   | Inr w2 \<Rightarrow>
                       (let w3 = record_call (GetActivity activity_id) w2
                        in case c_get_activity env (calls w2) activity_id of
                             Inl e \<Rightarrow> (Inl e, w3)
                           | Inr full_activity \<Rightarrow>
                               (case json_dumps env full_activity of
                                  Inl e \<Rightarrow> (Inl e, w3)
                                | Inr text2 \<Rightarrow>
                                    (case write_file json_full text2 w3 of
                                       Inl e \<Rightarrow> (Inl e, w3)
                                     | Inr w4 \<Rightarrow> (Inr filename, w4)))))))"

text \<open>The \<open>if\<close>/\<open>elif\<close> chain inside the \<open>try\<close> of \<open>download_activity\<close>.\<close>

definition dispatch_format ::
  "'j env \<Rightarrow> format_type \<Rightarrow> string \<Rightarrow> string \<Rightarrow> string \<Rightarrow> world \<Rightarrow> (exn + string) \<times> world"
  where
  "dispatch_format env format_type activity_id date_str safe_name w =
     (case format_type of
        Fmt_gpx \<Rightarrow> download_gpx env activity_id date_str safe_name w
      | Fmt_tcx \<Rightarrow> download_tcx env activity_id date_str safe_name w
      | Fmt_fit \<Rightarrow> download_fit env activity_id date_str safe_name w
      | Fmt_json \<Rightarrow> download_json env activity_id date_str safe_name w)"

text \<open>
  \<^verbatim>\<open>
  def download_activity(client, activity, output_dir, format_type):
      activity_id = activity['activityId']
      activity_name = activity.get('activityName', 'Unnamed Activity')
      activity_type = activity.get('activityType', {}).get('typeKey', 'unknown')
      start_time = activity.get('startTimeLocal', 'unknown time')
      date_str = get_date_string(start_time)
      safe_name = sanitize_filename(activity_name)
      print(f"{activity_name} ({activity_type}) - {start_time}")
      try:
          if format_type == 'gpx': ...
          print(f"  (check) Saved to {filename.name}")
          return True
      except Exception as e:
          print(f"  (cross) Error: {e}")
          return False
  \<close>
  Three statements before the \<open>try\<close> can raise, and what they raise leaves the function:
  the subscript \<open>activity['activityId']\<close> a \<open>KeyError\<close> when the key is absent; the second
  \<open>get\<close> an \<open>AttributeError\<close> when \<open>activityType\<close> is not a dictionary; and
  \<open>sanitize_filename\<close>, by its first \<open>name.replace\<close>, an \<open>AttributeError\<close> when the name is
  not a string.
\<close>

definition download_activity ::
  "'j env \<Rightarrow> activity \<Rightarrow> format_type \<Rightarrow> world \<Rightarrow> (exn + bool) \<times> world" where
  "download_activity env activity format_type w =
     (case activityId activity of
        None \<Rightarrow> (Inl KeyError, w)
      | Some activity_id \<Rightarrow>
         (let activity_name =
                (case activityName activity of None \<Rightarrow> Str ''Unnamed Activity'' | Some v \<Rightarrow> v)
          in case activityType activity of
               Some NotDict \<Rightarrow> (Inl AttributeError, w)
             | type_dict \<Rightarrow>
                (let activity_type =
                       (case type_dict of
                          Some (TypeDict (Some k)) \<Rightarrow> text_of k
                        | _ \<Rightarrow> ''unknown'');
                     start_time =
                       (case startTimeLocal activity of
                          None \<Rightarrow> Str ''unknown time''
                        | Some v \<Rightarrow> v);
                     date_str = get_date_string start_time
                 in case activity_name of
                      NotStr t \<Rightarrow> (Inl AttributeError, w)
                    | Str name \<Rightarrow>
                       (let safe_name = sanitize_filename name;
                            w0 = print_msg (MActivity name activity_type (text_of start_time)) w
                        in case dispatch_format env format_type activity_id date_str safe_name
                                  w0 of
                             (Inr filename, w1) \<Rightarrow> (Inr True, print_msg (MSaved filename) w1)
                           | (Inl e, w1) \<Rightarrow> (Inr False, print_msg (MError e) w1)))))"

section \<open>The watermark\<close>

text \<open>
  \<^verbatim>\<open>
  def get_last_activity_date(output_dir, format_ext):
      try:
          files = list(output_dir.glob(f'*{format_ext}'))
          if not files:
              return None
          dates = []
          for file in files:
              try:
                  date_str = file.name.split('_')[0]
                  date_obj = datetime.strptime(date_str, '%Y-%m-%d')
                  dates.append(date_obj)
              except (ValueError, IndexError):
                  continue
          return max(dates) if dates else None
      except Exception:
          return None
  \<close>
\<close>

fun collect_dates :: "string list \<Rightarrow> datetime list" where
  "collect_dates [] = []"
| "collect_dates (file # rest) =
     (case decode_date file of
        Some date_obj \<Rightarrow> date_obj # collect_dates rest
      | None \<Rightarrow> collect_dates rest)"

definition get_last_activity_date :: "world \<Rightarrow> string \<Rightarrow> datetime option" where
  "get_last_activity_date w format_ext =
     (case glob_ext w format_ext of
        Inl e \<Rightarrow> None
      | Inr found \<Rightarrow>
          if found = [] then None
          else (case collect_dates found of
                  [] \<Rightarrow> None
                | d # dates \<Rightarrow> Some (foldl max d dates)))"

section \<open>\<open>main\<close>\<close>

text \<open>
  The list comprehension of the incremental filter:
  \<^verbatim>\<open>
      activities = [a for a in activities if datetime.strptime(
          a.get('startTimeLocal', '1970-01-01 00:00:00'),
          '%Y-%m-%d %H:%M:%S'
      ) > last_date]
  \<close>
  It has no \<open>try\<close> of its own: what \<open>strptime\<close> raises (\<open>ValueError\<close> for a string that does
  not parse, \<open>TypeError\<close> for a value that is not a string) leaves the comprehension.
  \<open>filter_timestamp\<close> is \<open>a.get('startTimeLocal', '1970-01-01 00:00:00')\<close>.
\<close>

definition filter_timestamp :: "activity \<Rightarrow> pyval" where
  "filter_timestamp a =
     (case startTimeLocal a of None \<Rightarrow> Str ''1970-01-01 00:00:00'' | Some v \<Rightarrow> v)"

fun filter_since :: "datetime \<Rightarrow> activity list \<Rightarrow> exn + activity list" where
  "filter_since last_date [] = Inr []"
| "filter_since last_date (a # activities) =
     (case filter_timestamp a of
        NotStr v \<Rightarrow> Inl TypeError
      | Str s \<Rightarrow>
          (case strptime_datetime s of
             None \<Rightarrow> Inl ValueError
           | Some t \<Rightarrow>
               (case filter_since last_date activities of
                  Inl e \<Rightarrow> Inl e
                | Inr kept \<Rightarrow> Inr (if t > last_date then a # kept else kept))))"

text \<open>
  \<^verbatim>\<open>
      for i, activity in enumerate(activities, 1):
          print(f"[{i}/{len(activities)}] ", end='')
          if download_activity(client, activity, output_dir, args.format):
              success_count += 1
  \<close>
\<close>

fun download_each ::
  "'j env \<Rightarrow> format_type \<Rightarrow> nat \<Rightarrow> nat \<Rightarrow> activity list \<Rightarrow> nat \<Rightarrow> world \<Rightarrow> (exn + nat) \<times> world"
  where
  "download_each env fmt i n [] success_count w = (Inr success_count, w)"
| "download_each env fmt i n (activity # activities) success_count w =
     (case download_activity env activity fmt (print_msg (MProgress i n) w) of
        (Inl e, w1) \<Rightarrow> (Inl e, w1)
      | (Inr ok, w1) \<Rightarrow>
          download_each env fmt (i + 1) n activities
            (if ok then success_count + 1 else success_count) w1)"

text \<open>
  The block \<open># Download each activity\<close> of \<open>main\<close>: the loop, the summary line and
  \<open>return 0\<close>.
\<close>

definition export_activities ::
  "'j env \<Rightarrow> format_type \<Rightarrow> activity list \<Rightarrow> world \<Rightarrow> (exn + int) \<times> world" where
  "export_activities env fmt activities w =
     (case download_each env fmt 1 (length activities) activities 0 w of
        (Inl e, w1) \<Rightarrow> (Inl e, w1)
      | (Inr success_count, w1) \<Rightarrow>
          (Inr 0, print_msg (MComplete success_count (length activities)) w1))"

text \<open>The parsed arguments, after \<open>load_env\<close> and \<open>--all\<close> have been applied.\<close>

record config =
  username :: "string option"
  password :: "string option"
  count :: int
  format :: format_type
  since_last :: bool

text \<open>The truth value of an optional text: \<open>None\<close> and \<open>''\<close> are false.\<close>

definition truthy :: "string option \<Rightarrow> bool" where
  "truthy s = (s \<noteq> None \<and> s \<noteq> Some [])"

text \<open>
  The logins at the head of the \<open>try\<close> of \<open>main\<close>:
  \<^verbatim>\<open>
      if oauth1_token.exists() or oauth2_token.exists():
          client.login(tokenstore=str(tokenstore_path))
      else:
          client.login()
          try:
              client.login(tokenstore=str(tokenstore_path))
          except Exception:
              pass
  \<close>
\<close>

definition establish_session :: "'j env \<Rightarrow> world \<Rightarrow> exn option \<times> world" where
  "establish_session env w =
     (if tok_files w then (c_login env (calls w) True, record_call (Login True) w)
      else (case c_login env (calls w) False of
              Some e \<Rightarrow> (Some e, record_call (Login False) w)
            | None \<Rightarrow> (None, record_call (Login True) (record_call (Login False) w))))"

text \<open>The body of the \<open>try\<close> of \<open>main\<close>; \<open>Inr n\<close> is \<open>return n\<close>.\<close>

definition run_export ::
  "'j env \<Rightarrow> config \<Rightarrow> datetime option \<Rightarrow> world \<Rightarrow> (exn + int) \<times> world" where
  "run_export env args last_date w =
     (case establish_session env (print_msg MConnecting w) of
        (Some e, w1) \<Rightarrow> (Inl e, w1)
      | (None, w1) \<Rightarrow>
         (let w2 = print_msg (MFetching (count args)) (print_msg MAuthenticated w1);
              w3 = record_call (GetActivities 0 (count args)) w2
          in case c_get_activities env (calls w2) 0 (count args) of
               Inl e \<Rightarrow> (Inl e, w3)
             | Inr activities \<Rightarrow>
                 if activities = [] then (Inr 0, print_msg MNoActivities w3)
                 else
                   (let w4 = print_msg (MFound (length activities)) w3
                    in case last_date of
                         None \<Rightarrow> export_activities env (format args) activities w4
                       | Some last_seen \<Rightarrow>
                           (case filter_since last_seen activities of
                              Inl e \<Rightarrow> (Inl e, w4)
                            | Inr kept \<Rightarrow>
                               (let filtered_count = length activities - length kept;
                                    w5 = (if filtered_count > 0
                                          then print_msg (MFiltered filtered_count) w4 else w4)
                                in if kept = [] then (Inr 0, print_msg MNoNew w5)
                                   else export_activities env (format args) kept w5)))))"

text \<open>The three \<open>except\<close> clauses of \<open>main\<close>; each ends in \<open>return 1\<close>.\<close>

definition report_error :: "exn \<Rightarrow> world \<Rightarrow> world" where
  "report_error e w =
     print_msg (case e of
                  GarminConnectAuthenticationError \<Rightarrow> MAuthFailed e
                | GarminConnectConnectionError \<Rightarrow> MConnectionError e
                | _ \<Rightarrow> MUnexpected e) w"

text \<open>\<open>main\<close> returns an exit status, or is left by an exception no handler catches.\<close>

datatype outcome = Return int | Uncaught exn

text \<open>\<open>exit(main())\<close>: the interpreter ends with status 1 on an uncaught exception.\<close>

definition exit_status :: "outcome \<Rightarrow> int" where
  "exit_status t = (case t of Return n \<Rightarrow> n | Uncaught e \<Rightarrow> 1)"

text \<open>\<open>tokenstore_path.mkdir(parents=True, exist_ok=True)\<close> inside \<open>try ... except: pass\<close>.\<close>

definition mkdir_tokenstore :: "world \<Rightarrow> world" where
  "mkdir_tokenstore w = (if \<not> tok_dir w \<and> tok_creatable w then w\<lparr>tok_dir := True\<rparr> else w)"

text \<open>\<open>output_dir.mkdir(parents=True, exist_ok=True)\<close>, outside every \<open>try\<close>.\<close>

definition mkdir_output :: "world \<Rightarrow> exn + world" where
  "mkdir_output w =
     (if out_dir w \<noteq> Missing then Inr w
      else if out_creatable w then Inr (w\<lparr>out_dir := Listable, files := []\<rparr>)
      else Inl OSError)"

definition main :: "'j env \<Rightarrow> config \<Rightarrow> world \<Rightarrow> outcome \<times> world" where
  "main env args w =
     (let w1 = mkdir_tokenstore w
      in if \<not> truthy (username args) \<and> \<not> tok_dir w1
         then (Return 1, print_msg MUsernameRequired w1)
         else if truthy (username args) \<and> \<not> truthy (password args) \<and> \<not> tok_dir w1
         then (Return 1, print_msg MPasswordRequired w1)
         else (case mkdir_output w1 of
                 Inl e \<Rightarrow> (Uncaught e, w1)
               | Inr w2 \<Rightarrow>
                  (let w3 = print_msg MOutputDirectory w2;
                       last_date =
                         (if since_last args
                          then get_last_activity_date w3 (''.'' @ format_name (format args))
                          else None);
                       w4 = (if since_last args
                             then print_msg (case last_date of
                                               Some d \<Rightarrow> MLastDate d
                                             | None \<Rightarrow> MNoExisting) w3
                             else w3)
                   in case run_export env args last_date w4 of
                        (Inl e, w5) \<Rightarrow> (Return 1, report_error e w5)
                      | (Inr n, w5) \<Rightarrow> (Return n, w5))))"

section \<open>Notions used to state the properties\<close>

text \<open>The character-wise function that the replacement passes of \<open>sanitize_filename\<close>
  amount to.\<close>

definition clean_char :: "char \<Rightarrow> char" where
  "clean_char c =
     (if c \<in> set invalid_chars then CHR ''-'' else if c = CHR '' '' then CHR ''_'' else c)"

text \<open>A calendar date that \<open>datetime\<close> accepts, and its text \<open>YYYY-MM-DD\<close>, the year on four
  digits.\<close>

definition pad4 :: "nat \<Rightarrow> string" where
  "pad4 n = [digit (n div 1000), digit (n div 100 mod 10), digit (n div 10 mod 10), digit (n mod 10)]"

definition iso_date :: "nat \<Rightarrow> nat \<Rightarrow> nat \<Rightarrow> string" where
  "iso_date y m d = pad4 y @ ''-'' @ pad2 m @ ''-'' @ pad2 d"

definition valid_date :: "nat \<Rightarrow> nat \<Rightarrow> nat \<Rightarrow> bool" where
  "valid_date y m d =
     (1 \<le> y \<and> y \<le> 9999 \<and> 1 \<le> m \<and> m \<le> 12 \<and> 1 \<le> d \<and> d \<le> days_in_month y m)"

text \<open>The line that \<open>download_activity\<close> prints first for an activity is of this kind.\<close>

definition is_activity :: "msg \<Rightarrow> bool" where
  "is_activity m = (case m of MActivity n t s \<Rightarrow> True | _ \<Rightarrow> False)"

text \<open>
  What \<open>download_activity\<close> reads from an activity: the identifier, the name, the type
  and the start time that it prints, and the date and the name that it passes to the
  downloader.
\<close>

definition activity_id_text :: "activity \<Rightarrow> string" where
  "activity_id_text a = (case activityId a of None \<Rightarrow> [] | Some i \<Rightarrow> i)"

definition activity_name_text :: "activity \<Rightarrow> string" where
  "activity_name_text a =
     (case activityName a of None \<Rightarrow> ''Unnamed Activity'' | Some v \<Rightarrow> text_of v)"

definition activity_type_text :: "activity \<Rightarrow> string" where
  "activity_type_text a =
     (case activityType a of Some (TypeDict (Some k)) \<Rightarrow> text_of k | _ \<Rightarrow> ''unknown'')"

definition activity_start :: "activity \<Rightarrow> pyval" where
  "activity_start a = (case startTimeLocal a of None \<Rightarrow> Str ''unknown time'' | Some v \<Rightarrow> v)"

definition activity_line :: "activity \<Rightarrow> msg" where
  "activity_line a =
     MActivity (activity_name_text a) (activity_type_text a) (text_of (activity_start a))"

definition activity_date :: "activity \<Rightarrow> string" where
  "activity_date a = get_date_string (activity_start a)"

definition activity_safe_name :: "activity \<Rightarrow> string" where
  "activity_safe_name a = sanitize_filename (activity_name_text a)"

text \<open>
  An activity with which \<open>download_activity\<close> reaches its \<open>try\<close> block: it has an
  identifier, its name (if any) is a string, and its type (if any) is a dictionary.
\<close>

definition well_formed :: "activity \<Rightarrow> bool" where
  "well_formed a =
     (activityId a \<noteq> None
      \<and> (case activityName a of Some (NotStr t) \<Rightarrow> False | _ \<Rightarrow> True)
      \<and> (case activityType a of Some NotDict \<Rightarrow> False | _ \<Rightarrow> True))"

text \<open>
  The downloads of a list of activities, as the claim about the loop describes them: the
  downloader of the format is run for each activity in turn, on the world the one
  before it left, whatever the one before it returned or raised. \<open>run_downloads\<close> gives
  the result of each downloader (the path it returns or the exception that leaves it)
  and the world after the last one; it prints nothing.
\<close>

fun run_downloads ::
  "'j env \<Rightarrow> format_type \<Rightarrow> activity list \<Rightarrow> world \<Rightarrow> (exn + string) list \<times> world" where
  "run_downloads env fmt [] w = ([], w)"
| "run_downloads env fmt (a # rest) w =
     (case dispatch_format env fmt (activity_id_text a) (activity_date a) (activity_safe_name a) w
      of (r, w1) \<Rightarrow>
        (case run_downloads env fmt rest w1 of (rs, w2) \<Rightarrow> (r # rs, w2)))"

text \<open>The line that reports the result of a downloader, the lines of a whole loop
  (the \<open>i\<close>-th activity of \<open>n\<close> with the result of its downloader), and the number of
  downloaders that returned.\<close>

definition result_line :: "exn + string \<Rightarrow> msg" where
  "result_line r = (case r of Inr filename \<Rightarrow> MSaved filename | Inl e \<Rightarrow> MError e)"




text \<open>The time that the incremental filter reads from an activity; \<open>None\<close> when \<open>strptime\<close>
  raises on the value.\<close>

definition filter_time :: "activity \<Rightarrow> datetime option" where
  "filter_time a =
     (case filter_timestamp a of Str s \<Rightarrow> strptime_datetime s | NotStr v \<Rightarrow> None)"

text \<open>The logins of a run whose first login succeeds.\<close>

definition session_logins :: "world \<Rightarrow> call list" where
  "session_logins w = (if tok_files w then [Login True] else [Login False, Login True])"

text \<open>
  \<open>main\<close> reaches its \<open>try\<close> block: the credential checks pass (the token store exists
  or can be created, or a user name and a password are given) and the output directory
  exists or can be created.
\<close>

definition reaches_session :: "config \<Rightarrow> world \<Rightarrow> bool" where
  "reaches_session args w =
     ((tok_dir w \<or> tok_creatable w \<or> truthy (username args) \<and> truthy (password args))
      \<and> (out_dir w \<noteq> Missing \<or> out_creatable w))"

text \<open>The world after the two \<open>mkdir\<close> calls, the watermark \<open>main\<close> resolves there, and the
  world in which the \<open>try\<close> block starts.\<close>

definition prepared :: "world \<Rightarrow> world" where
  "prepared w =
     (let w1 = mkdir_tokenstore w
      in if out_dir w1 = Missing then w1\<lparr>out_dir := Listable, files := []\<rparr> else w1)"

definition watermark :: "config \<Rightarrow> world \<Rightarrow> datetime option" where
  "watermark args w =
     (if since_last args
      then get_last_activity_date (prepared w) (''.'' @ format_name (format args))
      else None)"

definition session_world :: "config \<Rightarrow> world \<Rightarrow> world" where
  "session_world args w =
     (let w3 = print_msg MOutputDirectory (prepared w)
      in if since_last args
         then print_msg (case watermark args w of Some d \<Rightarrow> MLastDate d | None \<Rightarrow> MNoExisting) w3
         else w3)"


text \<open>The message with which \<open>main\<close> reports the exception that ends the run.\<close>

definition report :: "exn \<Rightarrow> msg" where
  "report e = (case e of
                 GarminConnectAuthenticationError \<Rightarrow> MAuthFailed e
               | GarminConnectConnectionError \<Rightarrow> MConnectionError e
               | _ \<Rightarrow> MUnexpected e)"

subsection \<open>Concrete inputs\<close>

text \<open>An output directory with two exported files, and a machine on which nothing has
  been created yet.\<close>

definition demo_world :: world where
  "demo_world =
     \<lparr>out_dir = Listable, out_creatable = True,
      files = [(''2024-01-01_x_1.fit'', ''a''), (''2024-03-15_y_2.fit'', ''b'')],
      writable = (\<lambda>n. True), tok_dir = True, tok_creatable = True, tok_files = True,
      calls = [], stdout = []\<rparr>"

definition fresh_world :: world where
  "fresh_world =
     \<lparr>out_dir = Missing, out_creatable = True, files = [], writable = (\<lambda>n. True),
      tok_dir = False, tok_creatable = True, tok_files = False, calls = [], stdout = []\<rparr>"

text \<open>A client (with the libraries) that gives the same answer to every login, to every
  fetch of the activity list and, per activity, to every download; JSON structures are
  their own text.\<close>

definition demo_env ::
  "exn option \<Rightarrow> exn + activity list \<Rightarrow> (string \<Rightarrow> exn + bytes)
   \<Rightarrow> exn + (string \<times> extraction) list \<Rightarrow> string env" where
  "demo_env login_answer fetched download unzipped =
     \<lparr>c_login = (\<lambda>h b. login_answer),
      c_get_activities = (\<lambda>h start limit. fetched),
      c_download_activity = (\<lambda>h aid f. download aid),
      c_get_activity_details = (\<lambda>h aid. Inr ''{}''),
      c_get_activity = (\<lambda>h aid. Inr ''{}''),
      zip_read = (\<lambda>b. unzipped),
      utf8_ok = (\<lambda>b. True),
      json_dumps = (\<lambda>j. Inr j)\<rparr>"

definition demo_activity :: "string \<Rightarrow> string \<Rightarrow> activity" where
  "demo_activity aid start =
     \<lparr>activityId = Some aid, activityName = Some (Str ''Run''),
      activityType = Some (TypeDict (Some (Str ''running''))),
      startTimeLocal = Some (Str start)\<rparr>"

definition demo_args :: config where
  "demo_args = \<lparr>username = Some ''me'', password = Some ''secret'', count = 10,
                format = Fmt_fit, since_last = True\<rparr>"


section \<open>Properties of \<open>sanitize_filename\<close>\<close>

lemma foldl_replace:
  "r \<notin> set cs \<Longrightarrow>
   foldl (\<lambda>s ch. replace ch r s) s cs = map (\<lambda>c. if c \<in> set cs then r else c) s"
proof (induction cs arbitrary: s)
  case Nil
  then show ?case by simp
next
  case (Cons a cs)
  then show ?case by (auto simp: replace_def)
qed

lemma sanitize_filename_eq:
  "sanitize_filename x = (if x = [] then ''Unnamed'' else take 50 (map clean_char x))"
proof -
  have "CHR ''-'' \<notin> set invalid_chars"
    by (simp add: invalid_chars_def)
  then have pass1: "foldl (\<lambda>s ch. replace ch CHR ''-'' s) x invalid_chars
      = map (\<lambda>c. if c \<in> set invalid_chars then CHR ''-'' else c) x"
    by (rule foldl_replace)
  have "CHR '' '' \<notin> set invalid_chars"
    by (simp add: invalid_chars_def)
  then have pass2: "replace CHR '' '' CHR ''_''
        (map (\<lambda>c. if c \<in> set invalid_chars then CHR ''-'' else c) x) = map clean_char x"
    by (auto simp: replace_def clean_char_def)
  show ?thesis
    by (simp add: sanitize_filename_def Let_def pass1 pass2)
qed

lemma clean_char_idem: "clean_char (clean_char c) = clean_char c"
  by (simp add: clean_char_def invalid_chars_def)

lemma clean_char_range:
  "clean_char c \<notin> set invalid_chars" "clean_char c \<noteq> CHR '' ''"
  by (simp_all add: clean_char_def invalid_chars_def)

lemma clean_Unnamed: "map clean_char ''Unnamed'' = ''Unnamed''"
  by (simp add: clean_char_def invalid_chars_def)

text \<open>
  C5. \<open>sanitize_filename\<close> is a total function on strings; applying it twice gives the
  same as applying it once; its result has at most 50 characters, none of them one of
  \<open>< > : " / \ | ? *\<close> and none a space.
\<close>

theorem sanitize_idempotent_bounded_clean:
  "sanitize_filename (sanitize_filename x) = sanitize_filename x
   \<and> length (sanitize_filename x) \<le> 50
   \<and> set (sanitize_filename x) \<inter> set invalid_chars = {}
   \<and> CHR '' '' \<notin> set (sanitize_filename x)"
proof (cases "x = []")
  case True
  have "sanitize_filename ''Unnamed'' = ''Unnamed''"
    unfolding sanitize_filename_eq clean_Unnamed by simp
  with True show ?thesis
    by (simp add: sanitize_filename_eq invalid_chars_def)
next
  case False
  let ?y = "take 50 (map clean_char x)"
  have y: "sanitize_filename x = ?y" "?y \<noteq> []"
    using False by (simp_all add: sanitize_filename_eq)
  have "take 50 (map clean_char ?y) = ?y"
    by (simp add: take_map clean_char_idem)
  then have idem: "sanitize_filename ?y = ?y"
    using y(2) by (simp add: sanitize_filename_eq)
  have "c \<notin> set invalid_chars \<and> c \<noteq> CHR '' ''" if "c \<in> set ?y" for c
  proof -
    from that have "c \<in> set (map clean_char x)"
      by (rule in_set_takeD)
    then obtain d where "c = clean_char d"
      by auto
    then show ?thesis
      by (simp add: clean_char_range)
  qed
  then have "set ?y \<inter> set invalid_chars = {}" "CHR '' '' \<notin> set ?y"
    by blast+
  with idem y(1) show ?thesis by simp
qed

section \<open>The filename codec\<close>

text \<open>Decimal digits: what the directives of \<open>strptime\<close> read back from padded numbers.\<close>

lemma digit_cases: "k < 10 \<Longrightarrow> k \<in> {0, 1, 2, 3, 4, 5, 6, 7, 8, 9::nat}"
  by auto

lemma of_char_digit: "k < 10 \<Longrightarrow> of_char (digit k) = 48 + k"
  using digit_cases [of k] by (auto simp: digit_def)

lemma is_digit_digit: "k < 10 \<Longrightarrow> is_digit (digit k)"
  by (simp add: is_digit_def between_def of_char_digit)

lemma digit_val_digit: "k < 10 \<Longrightarrow> digit_val (digit k) = k"
  by (simp add: digit_val_def of_char_digit)

lemma digit_not_sep:
  assumes "k < 10"
  shows "digit k \<noteq> CHR ''-''" "digit k \<noteq> CHR ''_''" "CHR ''_'' \<noteq> digit k"
  using digit_cases [OF assms] by (auto simp: digit_def)

lemma between_digit:
  "k < 10 \<Longrightarrow> between lo hi (digit k) = (of_char lo \<le> 48 + k \<and> 48 + k \<le> (of_char hi :: nat))"
  by (simp add: between_def of_char_digit)

lemma lit_eq_digit: "k < 10 \<Longrightarrow> (c = digit k) = (is_digit c \<and> digit_val c = k)"
proof
  assume "k < 10" "c = digit k"
  then show "is_digit c \<and> digit_val c = k"
    by (simp add: is_digit_digit digit_val_digit)
next
  assume k: "k < 10" and c: "is_digit c \<and> digit_val c = k"
  then have "(of_char c :: nat) = of_char (digit k)"
    by (auto simp: is_digit_def between_def digit_val_def of_char_digit)
  then show "c = digit k"
    by (metis char_of_char)
qed

lemma re_Y_pad4: "y \<le> 9999 \<Longrightarrow> re_Y (pad4 y @ r) = [(y, r)]"
proof -
  assume y: "y \<le> 9999"
  have d: "y div 1000 < 10" "y div 100 mod 10 < 10" "y div 10 mod 10 < 10" "y mod 10 < 10"
    using y by simp_all
  have "y mod 100 = 10 * (y div 10 mod 10) + y mod 10"
    using mod_mult2_eq [of y 10 10] by simp
  moreover have "y mod 1000 = 100 * (y div 100 mod 10) + y mod 100"
    using mod_mult2_eq [of y 100 10] by simp
  moreover have "y = 1000 * (y div 1000) + y mod 1000"
    by simp
  ultimately
  have "1000 * (y div 1000) + 100 * (y div 100 mod 10) + 10 * (y div 10 mod 10) + y mod 10 = y"
    by linarith
  with d show ?thesis
    by (simp add: re_Y_def pad4_def is_digit_digit digit_val_digit)
qed

text \<open>The month and day fields, on two digits \<open>a\<close> and \<open>b\<close>.\<close>

lemma re_m_digits:
  assumes "a < 10" "b < 10" "1 \<le> 10 * a + b" "10 * a + b \<le> 12"
  shows "[x. (m', r3) \<leftarrow> re_m (digit a # digit b # CHR ''-'' # r),
             r4 \<leftarrow> lit CHR ''-'' r3, x \<leftarrow> f m' r4] = f (10 * a + b) r"
proof -
  have sep: "digit b \<noteq> CHR ''-''"
    using assms(2) by (rule digit_not_sep)
  have c: "CHR ''1'' = digit 1" "CHR ''0'' = digit 0"
    by (simp_all add: digit_def)
  from assms have "a = 0 \<or> a = 1" by arith
  then show ?thesis
  proof
    assume a: "a = 0"
    with assms have "1 \<le> b" by simp
    with a assms(2) sep show ?thesis
      by (simp add: re_m_def two_def one_def lit_def between_digit digit_val_digit,
          simp add: digit_def)
  next
    assume a: "a = 1"
    with assms have "b \<le> 2" by simp
    with a assms(2) sep show ?thesis
      by (simp add: re_m_def two_def one_def lit_def between_digit digit_val_digit,
          simp add: digit_def)
  qed
qed

lemma re_d_digits:
  assumes "a < 10" "b < 10" "1 \<le> 10 * a + b" "10 * a + b \<le> 31"
  shows "\<exists>rest. re_d [digit a, digit b] = (10 * a + b, []) # rest"
proof -
  from assms have "a = 0 \<or> a = 1 \<or> a = 2 \<or> a = 3" by arith
  then show ?thesis
  proof (elim disjE)
    assume a: "a = 0"
    with assms have "1 \<le> b" by simp
    with a assms(2) show ?thesis
      by (simp add: re_d_def two_def one_def lit_def lit_eq_digit is_digit_def between_def
            digit_val_def of_char_digit)
  next
    assume a: "a = 1"
    with assms(2) show ?thesis
      by (simp add: re_d_def two_def one_def lit_def lit_eq_digit is_digit_def between_def
            digit_val_def of_char_digit)
  next
    assume a: "a = 2"
    with assms(2) show ?thesis
      by (simp add: re_d_def two_def one_def lit_def lit_eq_digit is_digit_def between_def
            digit_val_def of_char_digit)
  next
    assume a: "a = 3"
    with assms have "b \<le> 1" by simp
    with a assms(2) show ?thesis
      by (simp add: re_d_def two_def one_def lit_def lit_eq_digit is_digit_def between_def
            digit_val_def of_char_digit)
  qed
qed

lemma days_in_month_le: "days_in_month y m \<le> 31"
  by (simp add: days_in_month_def)

lemma match_date_iso:
  assumes "valid_date y m d"
  shows "\<exists>rest. match_date (iso_date y m d) = ((y, m, d), []) # rest"
proof -
  from assms have y: "y \<le> 9999" and m: "1 \<le> m" "m \<le> 12" and d: "1 \<le> d" "d \<le> 31"
    using days_in_month_le [of y m] by (auto simp: valid_date_def)
  have md: "10 * (m div 10) + m mod 10 = m" "10 * (d div 10) + d mod 10 = d"
    by simp_all
  have "\<exists>rest. re_d [digit (d div 10), digit (d mod 10)]
          = (10 * (d div 10) + d mod 10, []) # rest"
    using d by (intro re_d_digits) simp_all
  then obtain rest where rest: "re_d (pad2 d) = (d, []) # rest"
    unfolding md pad2_def by blast
  have "[x. (m', r3) \<leftarrow> re_m (digit (m div 10) # digit (m mod 10) # CHR ''-'' # pad2 d),
             r4 \<leftarrow> lit CHR ''-'' r3, x \<leftarrow> f m' r4] = f (10 * (m div 10) + m mod 10) (pad2 d)" for f :: "nat \<Rightarrow> string \<Rightarrow> ((nat \<times> nat \<times> nat) \<times> string) list"
    using m by (intro re_m_digits) simp_all
  then have month: "[x. (m', r3) \<leftarrow> re_m (pad2 m @ CHR ''-'' # pad2 d),
             r4 \<leftarrow> lit CHR ''-'' r3, x \<leftarrow> f m' r4] = f m (pad2 d)" for f :: "nat \<Rightarrow> string \<Rightarrow> ((nat \<times> nat \<times> nat) \<times> string) list"
    unfolding md by (simp add: pad2_def)
  have "match_date (iso_date y m d)
      = [x. (m', r3) \<leftarrow> re_m (pad2 m @ CHR ''-'' # pad2 d), r4 \<leftarrow> lit CHR ''-'' r3,
            x \<leftarrow> map (\<lambda>(d', r5). ((y, m', d'), r5)) (re_d r4)]"
    unfolding match_date_def iso_date_def
    using re_Y_pad4 [OF y, of "''-'' @ pad2 m @ ''-'' @ pad2 d"]
    by (simp add: lit_def)
  also have "\<dots> = map (\<lambda>(d', r5). ((y, m, d'), r5)) (re_d (pad2 d))"
    by (rule month)
  finally show ?thesis by (simp add: rest)
qed

lemma strptime_date_iso:
  "valid_date y m d \<Longrightarrow> strptime_date (iso_date y m d) = Some (y, m, d, 0, 0, 0)"
  using match_date_iso [of y m d]
  by (auto simp: strptime_date_def mk_datetime_def valid_date_def)

lemma iso_date_no_underscore: "valid_date y m d \<Longrightarrow> CHR ''_'' \<notin> set (iso_date y m d)"
proof -
  assume "valid_date y m d"
  then have "y \<le> 9999" "m \<le> 12" "d \<le> 31"
    using days_in_month_le [of y m] by (auto simp: valid_date_def)
  then have "y div 1000 < 10" "y div 100 mod 10 < 10" "y div 10 mod 10 < 10" "y mod 10 < 10"
    "m div 10 < 10" "m mod 10 < 10" "d div 10 < 10" "d mod 10 < 10"
    by simp_all
  then show ?thesis
    by (simp add: iso_date_def pad4_def pad2_def digit_not_sep)
qed

lemma decode_date_encode:
  "valid_date y m d \<Longrightarrow>
   decode_date (export_name (iso_date y m d) n i e) = Some (y, m, d, 0, 0, 0)"
proof -
  assume v: "valid_date y m d"
  have "takeWhile (\<lambda>c. c \<noteq> CHR ''_'') (iso_date y m d @ CHR ''_'' # r) = iso_date y m d" for r
  proof -
    have "x \<noteq> CHR ''_''" if "x \<in> set (iso_date y m d)" for x
      using that iso_date_no_underscore [OF v] by blast
    then show ?thesis
      by (simp add: takeWhile_append2)
  qed
  then have "takeWhile (\<lambda>c. c \<noteq> CHR ''_'') (export_name (iso_date y m d) n i e) = iso_date y m d"
    by (simp add: export_name_def)
  then show ?thesis
    by (simp add: decode_date_def strptime_date_iso [OF v])
qed

text \<open>
  C6. Round trip of the codec: for every valid date, written \<open>YYYY-MM-DD\<close>, every name
  (sanitized or not), identifier and extension, the date decoded from the file name
  \<open>{date}_{name}_{id}{ext}\<close> (and from \<open>{date}_{id}{ext}\<close> when the name is empty) is that
  date. The date text has no underscore and the codec puts one right behind it, so the
  name segment cannot disturb the decoding: the property needs no proviso on the name.
\<close>

theorem decode_date_roundtrip:
  assumes "valid_date y m d"
  shows "decode_date (export_name (iso_date y m d) n i e) = Some (y, m, d, 0, 0, 0)"
  using decode_date_encode [OF assms, of n i e] .

theorem decode_date_roundtrip_witness:
  "valid_date 2024 3 15
   \<and> export_name (iso_date 2024 3 15) ''Morning_Run'' ''101'' ''.fit''
       = ''2024-03-15_Morning_Run_101.fit''
   \<and> decode_date ''2024-03-15_Morning_Run_101.fit'' = Some (2024, 3, 15, 0, 0, 0)"
  using decode_date_roundtrip [of 2024 3 15 "''Morning_Run''" "''101''" "''.fit''"]
  by (simp add: valid_date_def days_in_month_def export_name_def iso_date_def pad4_def pad2_def
      digit_def)

section \<open>The watermark\<close>

lemma collect_dates_eq:
  "collect_dates names = [the (decode_date n). n \<leftarrow> names, decode_date n \<noteq> None]"
  by (induction names) (simp_all split: option.splits)


lemma foldl_max_Max: "foldl max d ds = Max (set (d # ds))" for d :: datetime
proof -
  have "foldl max d ds = fold max ds d"
    by (simp add: foldl_conv_fold max.commute)
  also have "\<dots> = Max (set (d # ds))"
    by (rule Max.set_eq_fold [symmetric])
  finally show ?thesis .
qed

text \<open>The definitions that evaluate \<open>strptime\<close> on a given text.\<close>

lemmas strptime_defs =
  strptime_date_def strptime_datetime_def match_date_def match_datetime_def
  re_Y_def re_m_def re_d_def re_H_def re_M_def re_S_def one_def two_def lit_def
  is_digit_def between_def digit_val_def is_space_def mk_datetime_def days_in_month_def
  is_leap_def

lemma demo_dates:
  "decode_date ''2024-01-01_x_1.fit'' = Some (2024, 1, 1, 0, 0, 0)"
  "decode_date ''2024-03-15_y_2.fit'' = Some (2024, 3, 15, 0, 0, 0)"
  by (simp_all add: decode_date_def strptime_defs)

lemma demo_world_watermark:
  "get_last_activity_date demo_world ''.fit'' = Some (2024, 3, 15, 0, 0, 0)"
proof -
  have "suffix ''.fit'' ''2024-01-01_x_1.fit''" "suffix ''.fit'' ''2024-03-15_y_2.fit''"
    by (simp_all add: suffix_to_prefix)
  then show ?thesis
    by (simp add: get_last_activity_date_def glob_ext_def demo_world_def demo_dates)
qed

text \<open>
  C3. \<open>get_last_activity_date\<close> returns the greatest of the dates decoded from the names
  that end in the extension, when the directory can be listed and at least one name
  decodes; in every other case (the directory is missing, closed to listing or failing,
  it has no matching file, or no name decodes) it returns \<open>None\<close>. It has no other
  outcome: every exception is caught inside. With the files \<open>2024-01-01_x_1.fit\<close> and
  \<open>2024-03-15_y_2.fit\<close> the result is 2024-03-15.
\<close>

theorem get_last_activity_date_max:
  "get_last_activity_date w ext =
     (let dates = [the (decode_date n).
                    n \<leftarrow> filter (suffix ext) (map fst (files w)), decode_date n \<noteq> None]
      in if out_dir w = Listable \<and> dates \<noteq> [] then Some (Max (set dates)) else None)
   \<and> get_last_activity_date demo_world ''.fit'' = Some (2024, 3, 15, 0, 0, 0)"
proof
  let ?names = "filter (suffix ext) (map fst (files w))"
  have eq: "[the (decode_date n). n \<leftarrow> ?names, decode_date n \<noteq> None] = collect_dates ?names"
    by (simp only: collect_dates_eq)
  have "get_last_activity_date w ext =
     (let dates = collect_dates ?names
      in if out_dir w = Listable \<and> dates \<noteq> [] then Some (Max (set dates)) else None)"
  proof (cases "out_dir w")
    case Listable
    show ?thesis
    proof (cases "collect_dates ?names")
      case Nil
      with Listable show ?thesis
        by (simp add: get_last_activity_date_def glob_ext_def)
    next
      case (Cons d ds)
      then have "?names \<noteq> []"
        by auto
      with Listable Cons show ?thesis
        by (simp add: get_last_activity_date_def glob_ext_def foldl_max_Max del: foldl_Cons)
    qed
  qed (simp_all add: get_last_activity_date_def glob_ext_def)
  then show "get_last_activity_date w ext =
     (let dates = [the (decode_date n).
                    n \<leftarrow> filter (suffix ext) (map fst (files w)), decode_date n \<noteq> None]
      in if out_dir w = Listable \<and> dates \<noteq> [] then Some (Max (set dates)) else None)"
    by (simp only: eq)
next
  show "get_last_activity_date demo_world ''.fit'' = Some (2024, 3, 15, 0, 0, 0)"
    by (rule demo_world_watermark)
qed


section \<open>The incremental filter\<close>

text \<open>When the comprehension completes it has kept exactly the activities whose timestamp
  is later than the watermark, and every timestamp has parsed; when it raises, some
  timestamp is not a string or does not parse. An activity without \<open>startTimeLocal\<close> gets
  the epoch and is dropped for every watermark from 1970 on.\<close>

lemma demo_strptime:
  "strptime_datetime ''2024-03-14 07:00:00'' = Some (2024, 3, 14, 7, 0, 0)"
  "strptime_datetime ''2024-03-16 08:30:00'' = Some (2024, 3, 16, 8, 30, 0)"
  "strptime_datetime ''2024-03-15 18:45:00'' = Some (2024, 3, 15, 18, 45, 0)"
  "strptime_datetime ''2024-03-16T08:30:00'' = None"
  "strptime_datetime ''1970-01-01 00:00:00'' = Some (1970, 1, 1, 0, 0, 0)"
  by (simp_all add: strptime_defs)

lemma filter_since_Cons:
  "filter_since last_date (a # activities) =
     (case filter_time a of
        None \<Rightarrow> Inl (case filter_timestamp a of NotStr v \<Rightarrow> TypeError | Str s \<Rightarrow> ValueError)
      | Some t \<Rightarrow>
          (case filter_since last_date activities of
             Inl e \<Rightarrow> Inl e
           | Inr kept \<Rightarrow> Inr (if t > last_date then a # kept else kept)))"
  by (simp add: filter_time_def split: pyval.splits option.splits)

lemma filter_since_Inr:
  "filter_since last_date activities = Inr kept \<Longrightarrow>
   kept = filter (\<lambda>a. \<exists>t. filter_time a = Some t \<and> t > last_date) activities
   \<and> (\<forall>a \<in> set activities. filter_time a \<noteq> None)"
proof (induction activities arbitrary: kept)
  case Nil
  then show ?case by simp
next
  case (Cons a activities)
  then show ?case
    by (auto simp: filter_since_Cons simp del: filter_since.simps
        split: option.splits sum.splits if_splits pyval.splits)
qed

lemma filter_since_Inl:
  "filter_since last_date activities = Inl e \<Longrightarrow>
   (e = ValueError \<or> e = TypeError) \<and> (\<exists>a \<in> set activities. filter_time a = None)"
proof (induction activities)
  case Nil
  then show ?case by simp
next
  case (Cons a activities)
  then show ?case
    by (auto simp: filter_since_Cons simp del: filter_since.simps
        split: option.splits sum.splits if_splits pyval.splits)
qed

lemma filter_since_total:
  "(\<forall>a \<in> set activities. filter_time a \<noteq> None) \<Longrightarrow>
   \<exists>kept. filter_since last_date activities = Inr kept"
proof (cases "filter_since last_date activities")
  case (Inl e)
  assume all: "\<forall>a \<in> set activities. filter_time a \<noteq> None"
  from filter_since_Inl [OF Inl]
  obtain a where "a \<in> set activities" "filter_time a = None"
    by blast
  with all show ?thesis by blast
next
  case (Inr kept)
  then show ?thesis by blast
qed

lemma missing_timestamp_filtered:
  assumes "filter_since last_date activities = Inr kept"
    and "startTimeLocal a = None"
    and "(1970, 1, 1, 0, 0, 0) \<le> last_date"
  shows "a \<notin> set kept"
proof -
  have "filter_time a = Some (1970, 1, 1, 0, 0, 0)"
    using assms(2) by (simp add: filter_time_def filter_timestamp_def demo_strptime)
  with filter_since_Inr [OF assms(1)] assms(3) show ?thesis
    by auto
qed


section \<open>The compressed-binary downloader\<close>

lemma zip_name_not_fit:
  "export_name date name aid ''.zip'' \<noteq> export_name date name aid ''.fit''"
  by (simp add: export_name_def)

lemmas fs_defs = write_file_def rename_file_def unlink_def record_call_def print_msg_def




text \<open>An activity that is well formed reaches the \<open>try\<close> block of \<open>download_activity\<close>, which
  then returns \<open>True\<close> or \<open>False\<close>; any other activity makes it raise before, with nothing
  printed and nothing requested.\<close>

lemma download_activity_eq:
  "well_formed a \<Longrightarrow>
   download_activity env a fmt w =
     (case dispatch_format env fmt (activity_id_text a) (activity_date a) (activity_safe_name a)
             (print_msg (activity_line a) w) of
        (Inr filename, w1) \<Rightarrow> (Inr True, print_msg (MSaved filename) w1)
      | (Inl e, w1) \<Rightarrow> (Inr False, print_msg (MError e) w1))"
  by (auto simp: download_activity_def well_formed_def activity_id_text_def activity_date_def
      activity_safe_name_def activity_line_def activity_name_text_def activity_type_text_def
      activity_start_def text_of_def Let_def
      split: option.splits pyval.splits type_field.splits)

lemma download_activity_ill_formed:
  "\<not> well_formed a \<Longrightarrow>
   download_activity env a fmt w = (Inl KeyError, w)
   \<or> download_activity env a fmt w = (Inl AttributeError, w)"
  by (auto simp: download_activity_def well_formed_def Let_def
      split: option.splits pyval.splits type_field.splits)


lemma demo_names:
  "activity_date (demo_activity aid ''2024-03-14 07:00:00'') = ''2024-03-14''"
  "activity_date (demo_activity aid ''2024-03-16 08:30:00'') = ''2024-03-16''"
  "activity_date (demo_activity aid ''2024-03-15 18:45:00'') = ''2024-03-15''"
  "activity_safe_name (demo_activity aid start) = ''Run''"
  "activity_id_text (demo_activity aid start) = aid"
  "activity_line (demo_activity aid start) = MActivity ''Run'' ''running'' start"
  by (simp_all add: activity_date_def activity_safe_name_def activity_id_text_def
      activity_line_def activity_name_text_def activity_type_text_def activity_start_def
      text_of_def demo_activity_def
      get_date_string_def demo_strptime strftime_date_def decimal.simps pad2_def
      digit_def sanitize_filename_eq clean_char_def invalid_chars_def)

text \<open>
  C9. When the downloaded bytes are an archive without members, \<open>download_fit\<close> extracts
  nothing, removes the archive file and returns the canonical \<open>.fit\<close> name although it has
  written no such file: the files are those from before the call, less the archive name,
  so the \<open>.fit\<close> name exists only if it did before. \<open>download_activity\<close> (for an activity
  with which it reaches its \<open>try\<close> block) prints the line \<open>Saved\<close> and returns \<open>True\<close>, and
  the loop counts the activity as a success.
\<close>

theorem download_fit_empty_archive:
  assumes id: "activityId a = Some aid"
    and dl: "c_download_activity env (calls w) aid ORIGINAL = Inr data"
    and empty: "zip_read env data = Inr []"
    and dir: "out_dir w \<noteq> Missing"
    and wz: "writable w (export_name (activity_date a) (activity_safe_name a) aid ''.zip'')"
  shows "fst (download_fit env aid (activity_date a) (activity_safe_name a) w)
           = Inr (export_name (activity_date a) (activity_safe_name a) aid ''.fit'')
       \<and> map_of (files (snd (download_fit env aid (activity_date a) (activity_safe_name a) w)))
           = (map_of (files w))
               (export_name (activity_date a) (activity_safe_name a) aid ''.zip'' := None)
       \<and> map_of (files (snd (download_fit env aid (activity_date a) (activity_safe_name a) w)))
             (export_name (activity_date a) (activity_safe_name a) aid ''.fit'')
           = map_of (files w) (export_name (activity_date a) (activity_safe_name a) aid ''.fit'')
       \<and> (well_formed a \<longrightarrow>
            fst (download_activity env a Fmt_fit w) = Inr True
            \<and> stdout (snd (download_activity env a Fmt_fit w))
                = stdout w @ [activity_line a,
                    MSaved (export_name (activity_date a) (activity_safe_name a) aid ''.fit'')]
            \<and> fst (download_each env Fmt_fit i n [a] k w) = Inr (k + 1))"
proof -
  let ?zip = "export_name (activity_date a) (activity_safe_name a) aid ''.zip''"
  let ?fit = "export_name (activity_date a) (activity_safe_name a) aid ''.fit''"
  have idt: "activity_id_text a = aid"
    using id by (simp add: activity_id_text_def)
  have ne: "?fit \<noteq> ?zip"
    using zip_name_not_fit [of "activity_date a" "activity_safe_name a" aid] by simp
  have fit: "download_fit env aid (activity_date a) (activity_safe_name a) v
      = (Inr ?fit, (record_call (DownloadActivity aid ORIGINAL) v)
                     \<lparr>files := AList.delete ?zip (AList.update ?zip data (files v))\<rparr>)"
    if "calls v = calls w" "out_dir v = out_dir w" "writable v = writable w" for v
    using that dl empty dir wz
    by (simp add: download_fit_def fs_defs Let_def update_conv')
  have files: "map_of (files (snd (download_fit env aid (activity_date a) (activity_safe_name a) w)))
      = (map_of (files w))(?zip := None)"
    by (simp add: fit record_call_def delete_conv' update_conv')
  from files ne
  have same: "map_of (files (snd (download_fit env aid (activity_date a) (activity_safe_name a) w)))
      ?fit = map_of (files w) ?fit"
    by simp
  have counted: "fst (download_activity env a Fmt_fit w) = Inr True
      \<and> stdout (snd (download_activity env a Fmt_fit w)) = stdout w @ [activity_line a, MSaved ?fit]
      \<and> fst (download_each env Fmt_fit i n [a] k w) = Inr (k + 1)"
    if wf: "well_formed a"
  proof -
    have act: "download_activity env a Fmt_fit v
        = (Inr True, print_msg (MSaved ?fit)
             ((record_call (DownloadActivity aid ORIGINAL) (print_msg (activity_line a) v))
                \<lparr>files := AList.delete ?zip (AList.update ?zip data (files v))\<rparr>))"
      if "calls v = calls w" "out_dir v = out_dir w" "writable v = writable w" for v
      using that
      by (simp add: download_activity_eq [OF wf] idt dispatch_format_def fit print_msg_def)
    have "fst (download_each env Fmt_fit i n [a] k w) = Inr (k + 1)"
      by (simp add: act print_msg_def)
    moreover have "stdout (snd (download_activity env a Fmt_fit w))
             = stdout w @ [activity_line a, MSaved ?fit]"
      by (simp add: act print_msg_def record_call_def)
    ultimately show ?thesis
      by (simp add: act)
  qed
  have "fst (download_fit env aid (activity_date a) (activity_safe_name a) w) = Inr ?fit"
    by (simp add: fit)
  with files same counted show ?thesis
    by blast
qed

theorem download_fit_empty_archive_witness:
  "well_formed (demo_activity ''102'' ''2024-03-16 08:30:00'')
   \<and> fst (download_activity (demo_env None (Inr []) (\<lambda>aid. Inr ''PK'') (Inr []))
          (demo_activity ''102'' ''2024-03-16 08:30:00'') Fmt_fit demo_world) = Inr True
   \<and> map_of (files (snd (download_fit (demo_env None (Inr []) (\<lambda>aid. Inr ''PK'') (Inr []))
          ''102'' (activity_date (demo_activity ''102'' ''2024-03-16 08:30:00''))
          (activity_safe_name (demo_activity ''102'' ''2024-03-16 08:30:00'')) demo_world)))
        ''2024-03-16_Run_102.fit'' = None
   \<and> export_name (activity_date (demo_activity ''102'' ''2024-03-16 08:30:00''))
          (activity_safe_name (demo_activity ''102'' ''2024-03-16 08:30:00'')) ''102'' ''.fit''
        = ''2024-03-16_Run_102.fit''"
proof -
  have wf: "well_formed (demo_activity ''102'' ''2024-03-16 08:30:00'')"
    by (simp add: well_formed_def demo_activity_def)
  have id: "activityId (demo_activity ''102'' ''2024-03-16 08:30:00'') = Some ''102''"
    by (simp add: demo_activity_def)
  show ?thesis
    using download_fit_empty_archive
      [OF id, of "demo_env None (Inr []) (\<lambda>aid. Inr ''PK'') (Inr [])" demo_world "''PK''"]
    by (simp add: wf demo_names demo_env_def demo_world_def export_name_def)
qed

section \<open>The per-activity boundary\<close>

text \<open>The downloaders print nothing, and what has been printed has no influence on them.\<close>

lemma download_gpx_stdout: "stdout (snd (download_gpx env aid date name w)) = stdout w"
  by (simp add: download_gpx_def fs_defs Let_def split: sum.splits)

lemma download_tcx_stdout: "stdout (snd (download_tcx env aid date name w)) = stdout w"
  by (simp add: download_tcx_def fs_defs Let_def split: sum.splits)

lemma write_file_stdout: "write_file n b w = Inr w' \<Longrightarrow> stdout w' = stdout w"
  by (auto simp: write_file_def split: if_splits)

lemma rename_file_stdout: "rename_file a b w = Inr w' \<Longrightarrow> stdout w' = stdout w"
  by (auto simp: rename_file_def split: option.splits)

lemma unlink_stdout: "unlink n w = Inr w' \<Longrightarrow> stdout w' = stdout w"
  by (auto simp: unlink_def split: option.splits)

lemma record_call_stdout: "stdout (record_call c w) = stdout w"
  by (simp add: record_call_def)

lemma not_a_zip_stdout: "stdout (snd (not_a_zip a b w)) = stdout w"
  by (auto simp: not_a_zip_def dest!: rename_file_stdout split: sum.splits)

lemma download_fit_stdout: "stdout (snd (download_fit env aid date name w)) = stdout w"
  by (auto simp: download_fit_def Let_def record_call_stdout not_a_zip_stdout
      dest!: write_file_stdout rename_file_stdout unlink_stdout
      split: sum.splits option.splits list.splits extraction.splits)

lemma download_json_stdout: "stdout (snd (download_json env aid date name w)) = stdout w"
  by (auto simp: download_json_def Let_def record_call_stdout
      dest!: write_file_stdout split: sum.splits)

lemma dispatch_format_stdout:
  "stdout (snd (dispatch_format env fmt aid date name w)) = stdout w"
  by (cases fmt)
    (simp_all add: dispatch_format_def download_gpx_stdout download_tcx_stdout
      download_fit_stdout download_json_stdout)

lemma write_file_print:
  "write_file n b (w\<lparr>stdout := s\<rparr>) = map_sum id (\<lambda>v. v\<lparr>stdout := s\<rparr>) (write_file n b w)"
  by (simp add: write_file_def)

lemma rename_file_print:
  "rename_file a b (w\<lparr>stdout := s\<rparr>) = map_sum id (\<lambda>v. v\<lparr>stdout := s\<rparr>) (rename_file a b w)"
  by (simp add: rename_file_def split: option.splits)

lemma unlink_print:
  "unlink n (w\<lparr>stdout := s\<rparr>) = map_sum id (\<lambda>v. v\<lparr>stdout := s\<rparr>) (unlink n w)"
  by (simp add: unlink_def split: option.splits)

lemma record_call_print:
  "record_call c (w\<lparr>stdout := s\<rparr>) = (record_call c w)\<lparr>stdout := s\<rparr>"
  by (simp add: record_call_def)

lemma not_a_zip_print:
  "not_a_zip a b (w\<lparr>stdout := s\<rparr>) = map_prod id (\<lambda>v. v\<lparr>stdout := s\<rparr>) (not_a_zip a b w)"
  by (simp add: not_a_zip_def rename_file_print split: sum.splits)

lemmas print_simps = write_file_print rename_file_print unlink_print record_call_print
  not_a_zip_print

lemma download_gpx_print:
  "download_gpx env aid date name (w\<lparr>stdout := s\<rparr>)
     = map_prod id (\<lambda>v. v\<lparr>stdout := s\<rparr>) (download_gpx env aid date name w)"
  by (simp add: download_gpx_def print_simps Let_def split: sum.splits)

lemma download_tcx_print:
  "download_tcx env aid date name (w\<lparr>stdout := s\<rparr>)
     = map_prod id (\<lambda>v. v\<lparr>stdout := s\<rparr>) (download_tcx env aid date name w)"
  by (simp add: download_tcx_def print_simps Let_def split: sum.splits)

lemma files_stdout_swap:
  "v\<lparr>stdout := s, files := f\<rparr> = v\<lparr>files := f, stdout := s\<rparr>"
  by simp

lemma download_fit_print:
  "download_fit env aid date name (w\<lparr>stdout := s\<rparr>)
     = map_prod id (\<lambda>v. v\<lparr>stdout := s\<rparr>) (download_fit env aid date name w)"
  by (simp add: download_fit_def print_simps files_stdout_swap Let_def
      split: sum.splits list.splits extraction.splits option.splits)

lemma download_json_print:
  "download_json env aid date name (w\<lparr>stdout := s\<rparr>)
     = map_prod id (\<lambda>v. v\<lparr>stdout := s\<rparr>) (download_json env aid date name w)"
  by (simp add: download_json_def print_simps Let_def split: sum.splits)

lemma dispatch_format_print:
  "dispatch_format env fmt aid date name (w\<lparr>stdout := s\<rparr>)
     = map_prod id (\<lambda>v. v\<lparr>stdout := s\<rparr>) (dispatch_format env fmt aid date name w)"
  by (cases fmt)
    (simp_all add: dispatch_format_def download_gpx_print download_tcx_print
      download_fit_print download_json_print)

lemma run_downloads_Cons:
  "run_downloads env fmt (a # rest) w =
     (fst (dispatch_format env fmt (activity_id_text a) (activity_date a)
             (activity_safe_name a) w)
      # fst (run_downloads env fmt rest
               (snd (dispatch_format env fmt (activity_id_text a) (activity_date a)
                       (activity_safe_name a) w))),
      snd (run_downloads env fmt rest
             (snd (dispatch_format env fmt (activity_id_text a) (activity_date a)
                     (activity_safe_name a) w))))"
  by (simp split: prod.splits)

lemma run_downloads_print:
  "run_downloads env fmt acts (w\<lparr>stdout := s\<rparr>)
     = map_prod id (\<lambda>v. v\<lparr>stdout := s\<rparr>) (run_downloads env fmt acts w)"
proof (induction acts arbitrary: w)
  case Nil
  show ?case by simp
next
  case (Cons a acts)
  show ?case
    by (simp add: dispatch_format_print Cons.IH split: prod.splits)
qed

lemma run_downloads_stdout: "stdout (snd (run_downloads env fmt acts w)) = stdout w"
proof (induction acts arbitrary: w)
  case Nil
  show ?case by simp
next
  case (Cons a acts)
  obtain r w1 where d: "dispatch_format env fmt (activity_id_text a) (activity_date a)
      (activity_safe_name a) w = (r, w1)"
    by (cases "dispatch_format env fmt (activity_id_text a) (activity_date a)
      (activity_safe_name a) w")
  have "stdout w1 = stdout w"
    using dispatch_format_stdout [of env fmt "activity_id_text a" "activity_date a"
        "activity_safe_name a" w]
    by (simp add: d)
  with Cons.IH [of w1] show ?case
    by (simp add: run_downloads_Cons d del: run_downloads.simps)
qed




text \<open>\<open>download_activity\<close> and the loop, in terms of the downloads.\<close>

lemma download_activity_run:
  assumes "well_formed a"
  shows "download_activity env a fmt w =
     (case dispatch_format env fmt (activity_id_text a) (activity_date a) (activity_safe_name a) w
      of (r, w1) \<Rightarrow>
        (Inr (\<not> isl r), w1\<lparr>stdout := stdout w @ [activity_line a, result_line r]\<rparr>))"
proof -
  obtain r w1 where d: "dispatch_format env fmt (activity_id_text a) (activity_date a)
      (activity_safe_name a) w = (r, w1)"
    by (cases "dispatch_format env fmt (activity_id_text a) (activity_date a)
      (activity_safe_name a) w")
  have p: "print_msg (activity_line a) w = w\<lparr>stdout := stdout w @ [activity_line a]\<rparr>"
    by (simp add: print_msg_def)
  have "dispatch_format env fmt (activity_id_text a) (activity_date a) (activity_safe_name a)
      (print_msg (activity_line a) w) = (r, w1\<lparr>stdout := stdout w @ [activity_line a]\<rparr>)"
    unfolding p dispatch_format_print d by simp
  then show ?thesis
    by (cases r)
      (simp_all add: download_activity_eq [OF assms] d print_msg_def result_line_def)
qed




text \<open>An activity with which \<open>download_activity\<close> does not reach its \<open>try\<close> block ends the
  loop: after the downloads of the activities before it, the exception raised for it
  leaves the block, and no summary is printed.\<close>

lemma download_each_ill_formed:
  assumes "\<forall>a \<in> set pre. well_formed a" and "\<not> well_formed b"
  shows "\<exists>e v. download_each env fmt i n (pre @ b # rest) k w = (Inl e, v)
           \<and> (e = KeyError \<or> e = AttributeError)
           \<and> calls v = calls (snd (run_downloads env fmt pre w))
           \<and> files v = files (snd (run_downloads env fmt pre w))"
  using assms(1)
proof (induction pre arbitrary: i k w)
  case Nil
  from download_activity_ill_formed [OF assms(2), of env fmt "print_msg (MProgress i n) w"]
  show ?case
    by (auto simp: print_msg_def)
next
  case (Cons a pre)
  from Cons.prems have wf: "well_formed a" and rest: "\<forall>c \<in> set pre. well_formed c"
    by simp_all
  obtain r w1 where d: "dispatch_format env fmt (activity_id_text a) (activity_date a)
      (activity_safe_name a) w = (r, w1)"
    by (cases "dispatch_format env fmt (activity_id_text a) (activity_date a)
      (activity_safe_name a) w")
  let ?s = "stdout w @ [MProgress i n, activity_line a, result_line r]"
  have p: "print_msg (MProgress i n) w = w\<lparr>stdout := stdout w @ [MProgress i n]\<rparr>"
    by (simp add: print_msg_def)
  have act: "download_activity env a fmt (print_msg (MProgress i n) w)
      = (Inr (\<not> isl r), w1\<lparr>stdout := ?s\<rparr>)"
    unfolding p download_activity_run [OF wf] dispatch_format_print d by simp
  have step: "download_each env fmt i n ((a # pre) @ b # rest) k w
      = download_each env fmt (i + 1) n (pre @ b # rest) (if \<not> isl r then k + 1 else k)
          (w1\<lparr>stdout := ?s\<rparr>)"
    by (simp add: act)
  from Cons.IH [OF rest, of "i + 1" "if \<not> isl r then k + 1 else k" "w1\<lparr>stdout := ?s\<rparr>"]
  obtain e v where v: "download_each env fmt (i + 1) n (pre @ b # rest)
        (if \<not> isl r then k + 1 else k) (w1\<lparr>stdout := ?s\<rparr>) = (Inl e, v)"
    "e = KeyError \<or> e = AttributeError"
    "calls v = calls (snd (run_downloads env fmt pre (w1\<lparr>stdout := ?s\<rparr>)))"
    "files v = files (snd (run_downloads env fmt pre (w1\<lparr>stdout := ?s\<rparr>)))"
    by blast
  have "snd (run_downloads env fmt (a # pre) w) = snd (run_downloads env fmt pre w1)"
    by (simp add: run_downloads_Cons d del: run_downloads.simps)
  then have "calls v = calls (snd (run_downloads env fmt (a # pre) w))"
    "files v = files (snd (run_downloads env fmt (a # pre) w))"
    using v(3,4) by (simp_all add: run_downloads_print)
  with v(1,2) step show ?case
    by auto
qed

lemma export_activities_ill_formed:
  assumes "\<forall>a \<in> set pre. well_formed a" and "\<not> well_formed b"
  shows "\<exists>e v. export_activities env fmt (pre @ b # rest) w = (Inl e, v)
           \<and> (e = KeyError \<or> e = AttributeError)
           \<and> calls v = calls (snd (run_downloads env fmt pre w))
           \<and> files v = files (snd (run_downloads env fmt pre w))"
proof -
  from download_each_ill_formed [OF assms, of env fmt 1 "length (pre @ b # rest)" rest 0 w]
  obtain e v where "download_each env fmt 1 (length (pre @ b # rest)) (pre @ b # rest) 0 w
      = (Inl e, v)" "e = KeyError \<or> e = AttributeError"
    "calls v = calls (snd (run_downloads env fmt pre w))"
    "files v = files (snd (run_downloads env fmt pre w))"
    by blast
  then show ?thesis
    by (simp add: export_activities_def)
qed



section \<open>The run as a whole\<close>

lemma glob_ext_print: "glob_ext (print_msg m w) ext = glob_ext w ext"
  by (cases "out_dir w") (simp_all add: glob_ext_def print_msg_def)

lemma get_last_activity_date_print [simp]:
  "get_last_activity_date (print_msg m w) ext = get_last_activity_date w ext"
  by (simp add: get_last_activity_date_def glob_ext_print)

lemma report_error_eq: "report_error e w = print_msg (report e) w"
  by (simp add: report_error_def report_def)

lemma main_session:
  assumes "reaches_session args w"
  shows "main env args w =
     (case run_export env args (watermark args w) (session_world args w) of
        (Inl e, w5) \<Rightarrow> (Return 1, report_error e w5)
      | (Inr n, w5) \<Rightarrow> (Return n, w5))"
proof -
  let ?w1 = "mkdir_tokenstore w"
  have tok: "tok_dir ?w1 = (tok_dir w \<or> tok_creatable w)"
    by (simp add: mkdir_tokenstore_def)
  have out: "out_dir ?w1 = out_dir w" "out_creatable ?w1 = out_creatable w"
    by (simp_all add: mkdir_tokenstore_def)
  have mk: "mkdir_output ?w1 = Inr (prepared w)"
    using assms by (auto simp: mkdir_output_def prepared_def reaches_session_def out Let_def)
  have c1: "(\<not> truthy (username args) \<and> \<not> tok_dir ?w1) = False"
    and c2: "(truthy (username args) \<and> \<not> truthy (password args) \<and> \<not> tok_dir ?w1) = False"
    using assms by (auto simp: reaches_session_def tok)
  show ?thesis
  proof (cases "since_last args")
    case True
    show ?thesis
      unfolding main_def Let_def c1 c2 mk
      by (simp add: True watermark_def session_world_def Let_def)
  next
    case False
    show ?thesis
      unfolding main_def Let_def c1 c2 mk
      by (simp add: False watermark_def session_world_def Let_def)
  qed
qed

lemma session_world_fields:
  "calls (session_world args w) = calls w"
  "tok_files (session_world args w) = tok_files w"
  "files (session_world args w) = (if out_dir w = Missing then [] else files w)"
  "out_dir (session_world args w) = (if out_dir w = Missing then Listable else out_dir w)"
  "tok_dir (session_world args w) = (tok_dir w \<or> tok_creatable w)"
  by (simp_all add: session_world_def prepared_def mkdir_tokenstore_def print_msg_def Let_def)

lemma session_world_stdout:
  "\<exists>pre. stdout (session_world args w) = stdout w @ pre \<and> filter is_activity pre = []"
  by (cases "watermark args w")
    (simp_all add: session_world_def prepared_def mkdir_tokenstore_def print_msg_def Let_def
      is_activity_def)

lemma establish_session_ok:
  assumes "c_login env (calls w) (tok_files w) = None"
  shows "\<exists>w'. establish_session env (print_msg m w) = (None, w')
           \<and> calls w' = calls w @ session_logins w \<and> files w' = files w
           \<and> out_dir w' = out_dir w \<and> stdout w' = stdout w @ [m]
           \<and> writable w' = writable w \<and> tok_dir w' = tok_dir w"
  using assms
  by (cases "tok_files w")
    (simp_all add: establish_session_def session_logins_def print_msg_def record_call_def)

lemma establish_session_fails:
  assumes "c_login env (calls w) (tok_files w) = Some e"
  shows "\<exists>w'. establish_session env (print_msg m w) = (Some e, w')
           \<and> calls w' = calls w @ [Login (tok_files w)] \<and> files w' = files w
           \<and> out_dir w' = out_dir w \<and> stdout w' = stdout w @ [m]"
  using assms
  by (cases "tok_files w")
    (simp_all add: establish_session_def print_msg_def record_call_def)

lemma run_export_login_fails:
  assumes "c_login env (calls w) (tok_files w) = Some e"
  shows "\<exists>w'. run_export env args last_date w = (Inl e, w')
           \<and> calls w' = calls w @ [Login (tok_files w)] \<and> files w' = files w
           \<and> out_dir w' = out_dir w \<and> stdout w' = stdout w @ [MConnecting]"
proof -
  from establish_session_fails [OF assms, of MConnecting]
  obtain w1 where "establish_session env (print_msg MConnecting w) = (Some e, w1)"
    and "calls w1 = calls w @ [Login (tok_files w)]" "files w1 = files w"
    and "out_dir w1 = out_dir w" "stdout w1 = stdout w @ [MConnecting]"
    by blast
  then show ?thesis
    by (simp add: run_export_def)
qed

lemma run_export_fetch:
  assumes "c_login env (calls w) (tok_files w) = None"
  shows "\<exists>w3. calls w3 = calls w @ session_logins w @ [GetActivities 0 (count args)]
           \<and> files w3 = files w \<and> out_dir w3 = out_dir w \<and> writable w3 = writable w
           \<and> tok_dir w3 = tok_dir w
           \<and> stdout w3 = stdout w @ [MConnecting, MAuthenticated, MFetching (count args)]
           \<and> run_export env args last_date w =
               (case c_get_activities env (calls w @ session_logins w) 0 (count args) of
                  Inl e \<Rightarrow> (Inl e, w3)
                | Inr activities \<Rightarrow>
                    if activities = [] then (Inr 0, print_msg MNoActivities w3)
                    else
                      (let w4 = print_msg (MFound (length activities)) w3
                       in case last_date of
                            None \<Rightarrow> export_activities env (format args) activities w4
                          | Some last_seen \<Rightarrow>
                              (case filter_since last_seen activities of
                                 Inl e \<Rightarrow> (Inl e, w4)
                               | Inr kept \<Rightarrow>
                                  (let filtered_count = length activities - length kept;
                                       w5 = (if filtered_count > 0
                                             then print_msg (MFiltered filtered_count) w4 else w4)
                                   in if kept = [] then (Inr 0, print_msg MNoNew w5)
                                      else export_activities env (format args) kept w5))))"
proof -
  from establish_session_ok [OF assms, of MConnecting]
  obtain w1 where e: "establish_session env (print_msg MConnecting w) = (None, w1)"
    and w1: "calls w1 = calls w @ session_logins w" "files w1 = files w"
      "out_dir w1 = out_dir w" "stdout w1 = stdout w @ [MConnecting]" "writable w1 = writable w"
      "tok_dir w1 = tok_dir w"
    by blast
  let ?w2 = "print_msg (MFetching (count args)) (print_msg MAuthenticated w1)"
  let ?w3 = "record_call (GetActivities 0 (count args)) ?w2"
  have c2: "calls ?w2 = calls w @ session_logins w"
    by (simp add: print_msg_def w1)
  have "calls ?w3 = calls w @ session_logins w @ [GetActivities 0 (count args)]"
    "files ?w3 = files w" "out_dir ?w3 = out_dir w" "writable ?w3 = writable w"
    "tok_dir ?w3 = tok_dir w"
    "stdout ?w3 = stdout w @ [MConnecting, MAuthenticated, MFetching (count args)]"
    by (simp_all add: print_msg_def record_call_def w1)
  moreover have "run_export env args last_date w =
               (case c_get_activities env (calls w @ session_logins w) 0 (count args) of
                  Inl e \<Rightarrow> (Inl e, ?w3)
                | Inr activities \<Rightarrow>
                    if activities = [] then (Inr 0, print_msg MNoActivities ?w3)
                    else
                      (let w4 = print_msg (MFound (length activities)) ?w3
                       in case last_date of
                            None \<Rightarrow> export_activities env (format args) activities w4
                          | Some last_seen \<Rightarrow>
                              (case filter_since last_seen activities of
                                 Inl e \<Rightarrow> (Inl e, w4)
                               | Inr kept \<Rightarrow>
                                  (let filtered_count = length activities - length kept;
                                       w5 = (if filtered_count > 0
                                             then print_msg (MFiltered filtered_count) w4 else w4)
                                   in if kept = [] then (Inr 0, print_msg MNoNew w5)
                                      else export_activities env (format args) kept w5))))"
    unfolding run_export_def e Let_def by (simp add: c2)
  ultimately show ?thesis
    by blast
qed

lemma main_empty_list:
  assumes "reaches_session args w"
    and "c_login env (calls w) (tok_files w) = None"
    and "c_get_activities env (calls w @ session_logins w) 0 (count args) = Inr []"
  shows "fst (main env args w) = Return 0
       \<and> calls (snd (main env args w))
           = calls w @ session_logins w @ [GetActivities 0 (count args)]
       \<and> files (snd (main env args w)) = (if out_dir w = Missing then [] else files w)
       \<and> out_dir (snd (main env args w)) = (if out_dir w = Missing then Listable else out_dir w)
       \<and> tok_dir (snd (main env args w)) = (tok_dir w \<or> tok_creatable w)
       \<and> stdout (snd (main env args w))
           = stdout (session_world args w)
             @ [MConnecting, MAuthenticated, MFetching (count args), MNoActivities]"
proof -
  let ?v = "session_world args w"
  have "c_login env (calls ?v) (tok_files ?v) = None"
    using assms(2) by (simp add: session_world_fields)
  from run_export_fetch [OF this, of args "watermark args w"]
  obtain w3 where "calls w3 = calls w @ session_logins w @ [GetActivities 0 (count args)]"
    "files w3 = files ?v" "out_dir w3 = out_dir ?v" "tok_dir w3 = tok_dir ?v"
    "stdout w3 = stdout ?v @ [MConnecting, MAuthenticated, MFetching (count args)]"
    "run_export env args (watermark args w) ?v = (Inr 0, print_msg MNoActivities w3)"
    using assms(3) by (auto simp: session_world_fields session_logins_def)
  then show ?thesis
    by (simp add: main_session [OF assms(1)] print_msg_def session_world_fields)
qed

lemma main_fatal:
  assumes "reaches_session args w"
    and "c_login env (calls w) (tok_files w) = Some e
         \<or> c_login env (calls w) (tok_files w) = None
           \<and> c_get_activities env (calls w @ session_logins w) 0 (count args) = Inl e"
  shows "fst (main env args w) = Return 1
       \<and> exit_status (fst (main env args w)) \<noteq> 0
       \<and> last (stdout (snd (main env args w))) = report e
       \<and> calls (snd (main env args w))
           = calls w @ (if c_login env (calls w) (tok_files w) = None
                        then session_logins w @ [GetActivities 0 (count args)]
                        else [Login (tok_files w)])
       \<and> files (snd (main env args w)) = (if out_dir w = Missing then [] else files w)"
proof -
  let ?v = "session_world args w"
  from assms(2) show ?thesis
  proof
    assume l: "c_login env (calls w) (tok_files w) = Some e"
    then have "c_login env (calls ?v) (tok_files ?v) = Some e"
      by (simp add: session_world_fields)
    from run_export_login_fails [OF this, of args "watermark args w"]
    obtain w' where "run_export env args (watermark args w) ?v = (Inl e, w')"
      "calls w' = calls w @ [Login (tok_files w)]" "files w' = files ?v"
      by (auto simp: session_world_fields)
    then show ?thesis
      using l
      by (simp add: main_session [OF assms(1)] report_error_eq print_msg_def exit_status_def
          session_world_fields)
  next
    assume f: "c_login env (calls w) (tok_files w) = None
           \<and> c_get_activities env (calls w @ session_logins w) 0 (count args) = Inl e"
    then have "c_login env (calls ?v) (tok_files ?v) = None"
      by (simp add: session_world_fields)
    from run_export_fetch [OF this, of args "watermark args w"]
    obtain w3 where "calls w3 = calls w @ session_logins w @ [GetActivities 0 (count args)]"
      "files w3 = files ?v"
      "run_export env args (watermark args w) ?v = (Inl e, w3)"
      using f by (auto simp: session_world_fields session_logins_def)
    then show ?thesis
      using f
      by (simp add: main_session [OF assms(1)] report_error_eq print_msg_def exit_status_def
          session_world_fields)
  qed
qed








lemma main_filter_fails:
  assumes start: "reaches_session args w"
    and login: "c_login env (calls w) (tok_files w) = None"
    and fetch: "c_get_activities env (calls w @ session_logins w) 0 (count args) = Inr activities"
    and mark: "watermark args w = Some last_date"
    and bad: "filter_since last_date activities = Inl e"
  shows "fst (main env args w) = Return 1
       \<and> last (stdout (snd (main env args w))) = report e
       \<and> calls (snd (main env args w))
           = calls w @ session_logins w @ [GetActivities 0 (count args)]
       \<and> files (snd (main env args w)) = (if out_dir w = Missing then [] else files w)"
proof -
  let ?v = "session_world args w"
  have "c_login env (calls ?v) (tok_files ?v) = None"
    using login by (simp add: session_world_fields)
  from run_export_fetch [OF this, of args "watermark args w"]
  obtain w3 where w3: "calls w3 = calls ?v @ session_logins ?v @ [GetActivities 0 (count args)]"
      "files w3 = files ?v"
    and run: "run_export env args (watermark args w) ?v =
               (case c_get_activities env (calls ?v @ session_logins ?v) 0 (count args) of
                  Inl e \<Rightarrow> (Inl e, w3)
                | Inr activities \<Rightarrow>
                    if activities = [] then (Inr 0, print_msg MNoActivities w3)
                    else
                      (let w4 = print_msg (MFound (length activities)) w3
                       in case watermark args w of
                            None \<Rightarrow> export_activities env (format args) activities w4
                          | Some last_seen \<Rightarrow>
                              (case filter_since last_seen activities of
                                 Inl e \<Rightarrow> (Inl e, w4)
                               | Inr kept \<Rightarrow>
                                  (let filtered_count = length activities - length kept;
                                       w5 = (if filtered_count > 0
                                             then print_msg (MFiltered filtered_count) w4 else w4)
                                   in if kept = [] then (Inr 0, print_msg MNoNew w5)
                                      else export_activities env (format args) kept w5))))"
    by blast
  have ne: "activities \<noteq> []"
    using bad by auto
  have fetch': "c_get_activities env (calls ?v @ session_logins ?v) 0 (count args) = Inr activities"
    using fetch by (simp add: session_world_fields session_logins_def)
  have "run_export env args (watermark args w) ?v
      = (Inl e, print_msg (MFound (length activities)) w3)"
    unfolding run fetch' by (simp add: ne mark bad Let_def)
  then show ?thesis
    using w3
    by (simp add: main_session [OF start] report_error_eq print_msg_def session_world_fields
        session_logins_def)
qed

lemma demo_world_start: "reaches_session demo_args demo_world"
  by (simp add: reaches_session_def demo_world_def)

lemma fresh_world_start: "reaches_session demo_args fresh_world"
  by (simp add: reaches_session_def fresh_world_def)

lemma demo_watermark: "watermark demo_args demo_world = Some (2024, 3, 15, 0, 0, 0)"
proof -
  have "prepared demo_world = demo_world"
    by (simp add: prepared_def mkdir_tokenstore_def demo_world_def)
  then show ?thesis
    by (simp add: watermark_def demo_args_def format_name_def demo_world_watermark)
qed

text \<open>
  C7, as stated, fails: a run whose client returns the empty list has, before the fetch,
  created the output directory that was missing.
\<close>

theorem empty_list_creates_output_dir:
  "c_get_activities (demo_env None (Inr []) (\<lambda>aid. Inr ''FITDATA'') (Inl BadZipFile))
      (calls fresh_world @ session_logins fresh_world) 0 (count demo_args) = Inr []
   \<and> fst (main (demo_env None (Inr []) (\<lambda>aid. Inr ''FITDATA'') (Inl BadZipFile)) demo_args fresh_world)
       = Return 0
   \<and> out_dir fresh_world = Missing
   \<and> out_dir (snd (main (demo_env None (Inr []) (\<lambda>aid. Inr ''FITDATA'') (Inl BadZipFile))
                      demo_args fresh_world)) = Listable"
proof -
  let ?env = "demo_env None (Inr []) (\<lambda>aid. Inr ''FITDATA'') (Inl BadZipFile)"
  have l: "c_login ?env (calls fresh_world) (tok_files fresh_world) = None"
    and g: "c_get_activities ?env (calls fresh_world @ session_logins fresh_world) 0
         (count demo_args) = Inr []"
    by (simp_all add: demo_env_def)
  from main_empty_list [OF fresh_world_start l g] g
  show ?thesis
    by (simp add: fresh_world_def)
qed

text \<open>
  C7, amended. When \<open>main\<close> reaches its \<open>try\<close> block, the login succeeds and the client
  returns the empty list, \<open>main\<close> returns 0 having attempted no activity: the only requests
  are the logins and the fetch, no activity line is printed, the last line says that no
  activities were found, and no file of the output directory is created, changed or
  removed. The output directory itself has been created if it was missing (and is then
  empty), and so has the token-store directory where that was possible.
\<close>

theorem empty_list_ends_run:
  assumes "reaches_session args w"
    and "c_login env (calls w) (tok_files w) = None"
    and "c_get_activities env (calls w @ session_logins w) 0 (count args) = Inr []"
  shows "fst (main env args w) = Return 0
       \<and> calls (snd (main env args w))
           = calls w @ session_logins w @ [GetActivities 0 (count args)]
       \<and> files (snd (main env args w)) = (if out_dir w = Missing then [] else files w)
       \<and> out_dir (snd (main env args w)) = (if out_dir w = Missing then Listable else out_dir w)
       \<and> tok_dir (snd (main env args w)) = (tok_dir w \<or> tok_creatable w)
       \<and> filter is_activity (stdout (snd (main env args w))) = filter is_activity (stdout w)
       \<and> last (stdout (snd (main env args w))) = MNoActivities"
proof -
  obtain pre where "stdout (session_world args w) = stdout w @ pre" "filter is_activity pre = []"
    using session_world_stdout by blast
  with main_empty_list [OF assms] show ?thesis
    by (simp add: is_activity_def)
qed

theorem empty_list_ends_run_witness:
  "reaches_session demo_args fresh_world
   \<and> c_login (demo_env None (Inr []) (\<lambda>aid. Inr ''FITDATA'') (Inl BadZipFile))
        (calls fresh_world) (tok_files fresh_world) = None
   \<and> c_get_activities (demo_env None (Inr []) (\<lambda>aid. Inr ''FITDATA'') (Inl BadZipFile))
        (calls fresh_world @ session_logins fresh_world) 0 (count demo_args) = Inr []
   \<and> fst (main (demo_env None (Inr []) (\<lambda>aid. Inr ''FITDATA'') (Inl BadZipFile)) demo_args fresh_world)
       = Return 0
   \<and> calls (snd (main (demo_env None (Inr []) (\<lambda>aid. Inr ''FITDATA'') (Inl BadZipFile))
                    demo_args fresh_world))
       = [Login False, Login True, GetActivities 0 10]
   \<and> files (snd (main (demo_env None (Inr []) (\<lambda>aid. Inr ''FITDATA'') (Inl BadZipFile))
                    demo_args fresh_world)) = []
   \<and> last (stdout (snd (main (demo_env None (Inr []) (\<lambda>aid. Inr ''FITDATA'') (Inl BadZipFile))
                           demo_args fresh_world))) = MNoActivities"
proof -
  let ?env = "demo_env None (Inr []) (\<lambda>aid. Inr ''FITDATA'') (Inl BadZipFile)"
  have l: "c_login ?env (calls fresh_world) (tok_files fresh_world) = None"
    and g: "c_get_activities ?env (calls fresh_world @ session_logins fresh_world) 0
         (count demo_args) = Inr []"
    by (simp_all add: demo_env_def)
  from empty_list_ends_run [OF fresh_world_start l g] fresh_world_start l g
  show ?thesis
    by (simp add: fresh_world_def session_logins_def demo_args_def)
qed

text \<open>
  C8. When \<open>main\<close> has reached its \<open>try\<close> block and the login that establishes the
  session raises an exception (an authentication failure, a connection failure or any
  other), or that login succeeds and the fetch of the activity list raises one, \<open>main\<close>
  returns 1, its last line reports that exception (as an authentication failure, a
  connection error or an unexpected error), and the run has sent no request but the
  logins and the fetch and has left the files of the output directory as they were: no
  download is made. (After a first login without cached tokens has succeeded, the script
  logs in once more to save the tokens and, as its comment says, stays authenticated
  whatever that second call raises: that is not a failure of authentication.)
\<close>

theorem fatal_errors_abort_run:
  assumes "reaches_session args w"
    and "c_login env (calls w) (tok_files w) = Some e
         \<or> c_login env (calls w) (tok_files w) = None
           \<and> c_get_activities env (calls w @ session_logins w) 0 (count args) = Inl e"
  shows "fst (main env args w) = Return 1
       \<and> exit_status (fst (main env args w)) \<noteq> 0
       \<and> last (stdout (snd (main env args w))) = report e
       \<and> calls (snd (main env args w))
           = calls w @ (if c_login env (calls w) (tok_files w) = None
                        then session_logins w @ [GetActivities 0 (count args)]
                        else [Login (tok_files w)])
       \<and> files (snd (main env args w)) = (if out_dir w = Missing then [] else files w)"
  using assms by (rule main_fatal)

theorem fatal_errors_abort_run_witness:
  "reaches_session demo_args demo_world
   \<and> fst (main (demo_env (Some GarminConnectAuthenticationError) (Inr []) (\<lambda>aid. Inr ''FITDATA'') (Inl BadZipFile))
            demo_args demo_world) = Return 1
   \<and> last (stdout (snd (main (demo_env (Some GarminConnectAuthenticationError) (Inr [])
            (\<lambda>aid. Inr ''FITDATA'') (Inl BadZipFile)) demo_args demo_world)))
       = MAuthFailed GarminConnectAuthenticationError
   \<and> calls (snd (main (demo_env (Some GarminConnectAuthenticationError) (Inr [])
            (\<lambda>aid. Inr ''FITDATA'') (Inl BadZipFile)) demo_args demo_world)) = [Login True]
   \<and> fst (main (demo_env None (Inl GarminConnectConnectionError) (\<lambda>aid. Inr ''FITDATA'') (Inl BadZipFile))
            demo_args demo_world) = Return 1
   \<and> last (stdout (snd (main (demo_env None (Inl GarminConnectConnectionError)
            (\<lambda>aid. Inr ''FITDATA'') (Inl BadZipFile)) demo_args demo_world)))
       = MConnectionError GarminConnectConnectionError
   \<and> calls (snd (main (demo_env None (Inl GarminConnectConnectionError)
            (\<lambda>aid. Inr ''FITDATA'') (Inl BadZipFile)) demo_args demo_world))
       = [Login True, GetActivities 0 10]"
  using fatal_errors_abort_run [OF demo_world_start,
      of "demo_env (Some GarminConnectAuthenticationError) (Inr []) (\<lambda>aid. Inr ''FITDATA'') (Inl BadZipFile)"
         GarminConnectAuthenticationError]
    fatal_errors_abort_run [OF demo_world_start,
      of "demo_env None (Inl GarminConnectConnectionError) (\<lambda>aid. Inr ''FITDATA'') (Inl BadZipFile)"
         GarminConnectConnectionError]
    demo_world_start
  by (simp add: demo_env_def report_def session_logins_def demo_world_def demo_args_def)

text \<open>
  C2 describes what the filter should do with a timestamp that does not parse; the
  script does it only for an activity without \<open>startTimeLocal\<close>, while \<open>get_date_string\<close>
  guards the same call of \<open>strptime\<close> with a \<open>try\<close>. With the watermark
  2024-03-15 resolved and one activity whose timestamp is \<open>2024-03-16T08:30:00\<close>, the
  comprehension raises \<open>ValueError\<close>, and \<open>main\<close> ends the whole run: it returns 1 with the
  line for an unexpected error, after the login and the fetch and without any download.
\<close>

theorem unparseable_timestamp_aborts_run:
  "filter_since (2024, 3, 15, 0, 0, 0) [demo_activity ''104'' ''2024-03-16T08:30:00'']
     = Inl ValueError
   \<and> fst (main (demo_env None (Inr [demo_activity ''104'' ''2024-03-16T08:30:00''])
              (\<lambda>aid. Inr ''FITDATA'') (Inl BadZipFile)) demo_args demo_world) = Return 1
   \<and> last (stdout (snd (main (demo_env None (Inr [demo_activity ''104'' ''2024-03-16T08:30:00''])
              (\<lambda>aid. Inr ''FITDATA'') (Inl BadZipFile)) demo_args demo_world))) = MUnexpected ValueError
   \<and> calls (snd (main (demo_env None (Inr [demo_activity ''104'' ''2024-03-16T08:30:00''])
              (\<lambda>aid. Inr ''FITDATA'') (Inl BadZipFile)) demo_args demo_world))
       = [Login True, GetActivities 0 10]
   \<and> files (snd (main (demo_env None (Inr [demo_activity ''104'' ''2024-03-16T08:30:00''])
              (\<lambda>aid. Inr ''FITDATA'') (Inl BadZipFile)) demo_args demo_world)) = files demo_world"
proof -
  have bad: "filter_since (2024, 3, 15, 0, 0, 0) [demo_activity ''104'' ''2024-03-16T08:30:00'']
     = Inl ValueError"
    by (simp add: filter_timestamp_def demo_activity_def demo_strptime)
  have "c_login (demo_env None (Inr [demo_activity ''104'' ''2024-03-16T08:30:00''])
              (\<lambda>aid. Inr ''FITDATA'') (Inl BadZipFile)) (calls demo_world) (tok_files demo_world) = None"
    "c_get_activities (demo_env None (Inr [demo_activity ''104'' ''2024-03-16T08:30:00''])
              (\<lambda>aid. Inr ''FITDATA'') (Inl BadZipFile)) (calls demo_world @ session_logins demo_world) 0
         (count demo_args) = Inr [demo_activity ''104'' ''2024-03-16T08:30:00'']"
    by (simp_all add: demo_env_def)
  from main_filter_fails [OF demo_world_start this demo_watermark bad] bad
  show ?thesis
    by (simp add: report_def session_logins_def demo_world_def demo_args_def)
qed




end
